theory Spec2Isabelle
  imports Complex_Main
begin

section \<open>Numbers and arrays of the source language\<close>

text \<open>
  The engine is written in JavaScript (\<^verbatim>\<open>src/js/particle-system.js\<close>). Its numbers are
  IEEE doubles. Positions, velocities, forces and the other continuous quantities are
  modelled as mathematical reals. Where the source turns a number into a discrete outcome
  that rounding can change, the rounding is written out with \<open>fl64\<close>: the countdown of a
  particle's life, which is tested against \<open>0\<close>, and the sampling index of the
  level-of-detail query, which is the floor of a product. Infinities and NaN are not
  represented; the plain division \<open>a / b\<close> of HOL has the value \<open>0\<close> for \<open>b = 0\<close>, and
  the divisions that a guard of the source protects go through \<open>js_div\<close>, which reports a
  zero divisor. Loop counters and array indices are naturals, results of
  \<^verbatim>\<open>Math.floor\<close> are integers. An object held in an array slot is the value stored at
  that index.
\<close>

text \<open>
  Rounding to the nearest double: 53 significant bits, ties to the even significand. The
  exponent range is taken as unbounded, so overflow to an infinity and subnormal numbers
  are not represented.
\<close>

definition round_even :: "real \<Rightarrow> int" where
  "round_even y =
     (let f = \<lfloor>y\<rfloor>
      in if y - of_int f < 1 / 2 then f
         else if 1 / 2 < y - of_int f then f + 1
         else if even f then f else f + 1)"

definition fl64 :: "real \<Rightarrow> real" where
  "fl64 v =
     (if v = 0 then 0
      else let e = \<lfloor>log 2 \<bar>v\<bar>\<rfloor> - 52
           in of_int (round_even (v / 2 powr of_int e)) * 2 powr of_int e)"

text \<open>
  A quotient with divisor \<open>0\<close> is an infinity or NaN in the source, not a real number;
  \<open>js_div\<close> reports it as an error value.
\<close>

datatype js_error = DivisionByZero

definition js_div :: "real \<Rightarrow> real \<Rightarrow> js_error + real" where
  "js_div a b = (if b = 0 then Inl DivisionByZero else Inr (a / b))"

text \<open>
  The remainder operator \<^verbatim>\<open>a % b\<close>: the quotient is truncated towards zero, so the result
  carries the sign of the dividend.
\<close>

definition js_rem :: "real \<Rightarrow> real \<Rightarrow> real" where
  "js_rem a b = a - b * of_int (if a / b < 0 then \<lceil>a / b\<rceil> else \<lfloor>a / b\<rfloor>)"

text \<open>Reading \<^verbatim>\<open>arr[index]\<close>: an index outside the array yields \<^verbatim>\<open>undefined\<close> (\<open>None\<close>).\<close>

definition js_index :: "'a list \<Rightarrow> int \<Rightarrow> 'a option" where
  "js_index arr index = (if 0 \<le> index \<and> nat index < length arr then Some (arr ! nat index) else None)"

section \<open>Particle\<close>

text \<open>
  The fields of \<^verbatim>\<open>class Particle\<close>, each prefixed with \<open>p_\<close> (the source's \<^verbatim>\<open>x\<close>,
  \<^verbatim>\<open>y\<close>, \<^verbatim>\<open>size\<close> and \<^verbatim>\<open>hue\<close> would otherwise clash with variables, with HOL's
  \<open>size\<close> and with the emission parameters).
\<close>

record Particle =
  p_x :: real
  p_y :: real
  p_vx :: real
  p_vy :: real
  p_ax :: real
  p_ay :: real
  p_size :: real
  p_life :: real
  p_maxLife :: real
  p_hue :: real
  p_saturation :: real
  p_lightness :: real
  p_alpha :: real
  p_active :: bool
  p_mass :: real
  p_angle :: real
  p_angularVelocity :: real

text \<open>The constructor \<^verbatim>\<open>new Particle()\<close>.\<close>

definition new_Particle :: Particle where
  "new_Particle =
     \<lparr> p_x = 0, p_y = 0, p_vx = 0, p_vy = 0, p_ax = 0, p_ay = 0, p_size = 2,
       p_life = 1.0, p_maxLife = 1.0, p_hue = 0, p_saturation = 100, p_lightness = 50,
       p_alpha = 1.0, p_active = False, p_mass = 1.0, p_angle = 0, p_angularVelocity = 0 \<rparr>"

text \<open>
  \<^verbatim>\<open>init(x, y, vx, vy, size, life, hue)\<close>. The two calls of \<^verbatim>\<open>Math.random()\<close> in its body
  return \<open>r1\<close> and \<open>r2\<close>, in this order.
\<close>

definition init :: "real \<Rightarrow> real \<Rightarrow> real \<Rightarrow> real \<Rightarrow> real \<Rightarrow> real \<Rightarrow> real \<Rightarrow> real \<Rightarrow> real \<Rightarrow> Particle \<Rightarrow> Particle" where
  "init x0 y0 vx0 vy0 size0 life0 hue0 r1 r2 p =
     p\<lparr> p_x := x0, p_y := y0, p_vx := vx0, p_vy := vy0, p_ax := 0, p_ay := 0,
        p_size := size0, p_life := life0, p_maxLife := life0, p_hue := hue0,
        p_saturation := 100, p_lightness := 50, p_alpha := 1.0, p_active := True,
        p_mass := size0 * 0.1, p_angle := r1 * pi * 2,
        p_angularVelocity := (r2 - 0.5) * 0.1 \<rparr>"

text \<open>
  \<^verbatim>\<open>Particle.update(width, height, deltaTime)\<close>; neither \<^verbatim>\<open>width\<close> nor \<^verbatim>\<open>height\<close> is read
  by the body. \<^verbatim>\<open>this.life -= 0.01 * deltaTime\<close> is computed in doubles: the literal
  \<^verbatim>\<open>0.01\<close> is the double nearest to \<open>1/100\<close>, and the product and the difference are
  rounded.
\<close>

definition Particle_update :: "real \<Rightarrow> real \<Rightarrow> real \<Rightarrow> Particle \<Rightarrow> Particle" where
  "Particle_update width0 height0 deltaTime p =
     (if \<not> p_active p then p
      else
        let vx1 = p_vx p + p_ax p * deltaTime;
            vy1 = p_vy p + p_ay p * deltaTime;
            x1 = p_x p + vx1 * deltaTime;
            y1 = p_y p + vy1 * deltaTime;
            angle1 = p_angle p + p_angularVelocity p * deltaTime;
            life1 = fl64 (p_life p - fl64 (fl64 0.01 * deltaTime))
        in p\<lparr> p_vx := vx1, p_vy := vy1, p_x := x1, p_y := y1, p_angle := angle1,
              p_life := life1, p_alpha := max 0 (life1 / p_maxLife p),
              p_active := (if life1 \<le> 0 then False else p_active p),
              p_ax := 0, p_ay := 0 \<rparr>)"

definition applyForce :: "real \<Rightarrow> real \<Rightarrow> Particle \<Rightarrow> Particle" where
  "applyForce fx fy p = p\<lparr> p_ax := p_ax p + fx / p_mass p, p_ay := p_ay p + fy / p_mass p \<rparr>"

text \<open>\<^verbatim>\<open>bounce(width, height, damping)\<close>: the horizontal test, then the vertical one.\<close>

definition bounce :: "real \<Rightarrow> real \<Rightarrow> real \<Rightarrow> Particle \<Rightarrow> Particle" where
  "bounce width0 height0 damping0 p =
     (let p1 = (if p_x p < 0 then p\<lparr> p_x := 0, p_vx := p_vx p * (- damping0) \<rparr>
                else if p_x p > width0 then p\<lparr> p_x := width0, p_vx := p_vx p * (- damping0) \<rparr>
                else p)
      in if p_y p1 < 0 then p1\<lparr> p_y := 0, p_vy := p_vy p1 * (- damping0) \<rparr>
         else if p_y p1 > height0 then p1\<lparr> p_y := height0, p_vy := p_vy p1 * (- damping0) \<rparr>
         else p1)"

text \<open>\<^verbatim>\<open>wrap(width, height)\<close>: four tests in sequence, each on the position as left by the one before.\<close>

definition wrap :: "real \<Rightarrow> real \<Rightarrow> Particle \<Rightarrow> Particle" where
  "wrap width0 height0 p =
     (let p1 = (if p_x p < 0 then p\<lparr> p_x := width0 \<rparr> else p);
          p2 = (if p_x p1 > width0 then p1\<lparr> p_x := 0 \<rparr> else p1);
          p3 = (if p_y p2 < 0 then p2\<lparr> p_y := height0 \<rparr> else p2)
      in if p_y p3 > height0 then p3\<lparr> p_y := 0 \<rparr> else p3)"

section \<open>Spatial hash\<close>

text \<open>
  The grid is a \<^verbatim>\<open>Map\<close> from the key \<^verbatim>\<open>`${cellX},${cellY}`\<close> to an array of particles; it
  is modelled as an association list in insertion order, keyed by the pair of cell
  coordinates. \<^verbatim>\<open>getNearby\<close> is called by none of the operations below and is left out.
\<close>

record SpatialHash =
  cellSize :: real
  grid :: "((int \<times> int) \<times> Particle list) list"

definition new_SpatialHash :: "real \<Rightarrow> SpatialHash" where
  "new_SpatialHash cs = \<lparr> cellSize = cs, grid = [] \<rparr>"

definition getCellKey :: "SpatialHash \<Rightarrow> real \<Rightarrow> real \<Rightarrow> int \<times> int" where
  "getCellKey h px py = (\<lfloor>px / cellSize h\<rfloor>, \<lfloor>py / cellSize h\<rfloor>)"

definition hash_clear :: "SpatialHash \<Rightarrow> SpatialHash" where
  "hash_clear h = h\<lparr> grid := [] \<rparr>"

fun grid_push :: "int \<times> int \<Rightarrow> Particle \<Rightarrow> ((int \<times> int) \<times> Particle list) list \<Rightarrow> ((int \<times> int) \<times> Particle list) list" where
  "grid_push k p [] = [(k, [p])]"
| "grid_push k p ((k', ps) # g) = (if k' = k then (k', ps @ [p]) # g else (k', ps) # grid_push k p g)"

definition hash_insert :: "Particle \<Rightarrow> SpatialHash \<Rightarrow> SpatialHash" where
  "hash_insert particle h = h\<lparr> grid := grid_push (getCellKey h (p_x particle) (p_y particle)) particle (grid h) \<rparr>"

section \<open>Particle system: state\<close>

record Physics =
  mode :: string
  gravity :: real
  gravityX :: real
  gravityY :: real
  magnetismStrength :: real
  magnetX :: real
  magnetY :: real
  turbulenceStrength :: real
  turbulenceFrequency :: real
  orbitalCenterX :: real
  orbitalCenterY :: real
  orbitalStrength :: real
  damping :: real
  bounceEnabled :: bool
  wrapEnabled :: bool

text \<open>The emission parameters, each prefixed with \<open>e_\<close>.\<close>

record Emission =
  e_rate :: real
  e_x :: real
  e_y :: real
  e_spread :: real
  e_velocityMin :: real
  e_velocityMax :: real
  e_sizeMin :: real
  e_sizeMax :: real
  e_lifeMin :: real
  e_lifeMax :: real
  e_hue :: real
  e_hueVariation :: real

record AudioReactive =
  emissionMultiplier :: real
  sizeMultiplier :: real
  velocityMultiplier :: real
  hueShift :: real

record ParticleSystem =
  maxParticles :: nat
  particles :: "Particle list"
  particlePool :: "Particle list"
  spatialHash :: SpatialHash
  physics :: Physics
  emission :: Emission
  audioReactive :: AudioReactive
  width :: real
  height :: real
  activeParticleCount :: nat
  time :: nat

text \<open>
  The constructor \<^verbatim>\<open>new ParticleSystem(maxParticles)\<close>; the capacity is a count, so the
  loop that fills the pool pushes \<open>maxParticles\<close> fresh particles.
\<close>

definition new_ParticleSystem :: "nat \<Rightarrow> ParticleSystem" where
  "new_ParticleSystem n =
     \<lparr> maxParticles = n,
       particles = [],
       particlePool = replicate n new_Particle,
       spatialHash = new_SpatialHash 50,
       physics = \<lparr> mode = ''gravity'', gravity = 0.1, gravityX = 0, gravityY = 0.1,
                   magnetismStrength = 0.5, magnetX = 0, magnetY = 0,
                   turbulenceStrength = 0.3, turbulenceFrequency = 0.01,
                   orbitalCenterX = 0.5, orbitalCenterY = 0.5, orbitalStrength = 0.2,
                   damping = 0.99, bounceEnabled = False, wrapEnabled = True \<rparr>,
       emission = \<lparr> e_rate = 10, e_x = 0.5, e_y = 0.5, e_spread = 0.2,
                    e_velocityMin = 1, e_velocityMax = 3, e_sizeMin = 2, e_sizeMax = 6,
                    e_lifeMin = 100, e_lifeMax = 200, e_hue = 200, e_hueVariation = 60 \<rparr>,
       audioReactive = \<lparr> emissionMultiplier = 1.0, sizeMultiplier = 1.0,
                          velocityMultiplier = 1.0, hueShift = 0 \<rparr>,
       width = 1920, height = 1080, activeParticleCount = 0, time = 0 \<rparr>"

definition setDimensions :: "real \<Rightarrow> real \<Rightarrow> ParticleSystem \<Rightarrow> ParticleSystem" where
  "setDimensions w h s =
     s\<lparr> width := w, height := h,
        physics := (physics s)\<lparr> magnetX := w / 2, magnetY := h / 2 \<rparr> \<rparr>"

section \<open>Emission\<close>

text \<open>
  \<^verbatim>\<open>getParticle()\<close> scans the pool from slot 0 and returns the first inactive particle, or
  \<^verbatim>\<open>null\<close>. The model returns the index of that slot.
\<close>

fun firstInactive :: "Particle list \<Rightarrow> nat option" where
  "firstInactive [] = None"
| "firstInactive (p # ps) = (if \<not> p_active p then Some 0 else map_option Suc (firstInactive ps))"

definition getParticle :: "ParticleSystem \<Rightarrow> nat option" where
  "getParticle s = firstInactive (particlePool s)"

text \<open>
  One pass of the body of the loop in \<^verbatim>\<open>emit\<close>, for the acquired particle. \<open>rnd\<close> is the
  sequence of values that \<^verbatim>\<open>Math.random()\<close> returns and \<open>k\<close> the number of values already
  drawn; a pass draws nine: seven in \<^verbatim>\<open>emit\<close>, two in \<^verbatim>\<open>init\<close>.
\<close>

definition spawn :: "ParticleSystem \<Rightarrow> real \<Rightarrow> (nat \<Rightarrow> real) \<Rightarrow> nat \<Rightarrow> Particle \<Rightarrow> Particle" where
  "spawn s audioEnergy rnd k particle =
     (let x0 = e_x (emission s) * width s + (rnd k - 0.5) * e_spread (emission s) * width s;
          y0 = e_y (emission s) * height s + (rnd (k + 1) - 0.5) * e_spread (emission s) * height s;
          angle0 = rnd (k + 2) * pi * 2;
          speed = e_velocityMin (emission s) + rnd (k + 3) * (e_velocityMax (emission s) - e_velocityMin (emission s));
          speedMultiplier = 1 + audioEnergy * velocityMultiplier (audioReactive s);
          vx0 = cos angle0 * speed * speedMultiplier;
          vy0 = sin angle0 * speed * speedMultiplier;
          size0 = e_sizeMin (emission s) + rnd (k + 4) * (e_sizeMax (emission s) - e_sizeMin (emission s));
          sizeMultiplier0 = 1 + audioEnergy * sizeMultiplier (audioReactive s);
          actualSize = size0 * sizeMultiplier0;
          life0 = e_lifeMin (emission s) + rnd (k + 5) * (e_lifeMax (emission s) - e_lifeMin (emission s));
          hue0 = js_rem (e_hue (emission s) + (rnd (k + 6) - 0.5) * e_hueVariation (emission s)
                          + hueShift (audioReactive s)) 360
      in init x0 y0 vx0 vy0 actualSize life0 hue0 (rnd (k + 7)) (rnd (k + 8)) particle)"

text \<open>
  The loop \<^verbatim>\<open>for (i = 0; i < actualCount; i++)\<close> with \<open>n\<close> passes left; it stops at the first
  pass that finds no free slot (\<^verbatim>\<open>if (!particle) break\<close>).
\<close>

fun emit_loop :: "nat \<Rightarrow> real \<Rightarrow> (nat \<Rightarrow> real) \<Rightarrow> nat \<Rightarrow> ParticleSystem \<Rightarrow> ParticleSystem" where
  "emit_loop 0 audioEnergy rnd k s = s"
| "emit_loop (Suc n) audioEnergy rnd k s =
     (case getParticle s of
        None \<Rightarrow> s
      | Some i \<Rightarrow>
          emit_loop n audioEnergy rnd (k + 9)
            (s\<lparr> particlePool := (particlePool s)[i := spawn s audioEnergy rnd k (particlePool s ! i)] \<rparr>))"

definition emit :: "real \<Rightarrow> real \<Rightarrow> (nat \<Rightarrow> real) \<Rightarrow> ParticleSystem \<Rightarrow> ParticleSystem" where
  "emit count0 audioEnergy rnd s =
     (let actualCount = \<lfloor>count0 * (1 + audioEnergy * emissionMultiplier (audioReactive s))\<rfloor>
      in emit_loop (nat actualCount) audioEnergy rnd 0 s)"

section \<open>Force fields\<close>

definition applyGravity :: "ParticleSystem \<Rightarrow> Particle \<Rightarrow> Particle" where
  "applyGravity s particle = applyForce (gravityX (physics s)) (gravityY (physics s)) particle"

text \<open>
  The force term of \<^verbatim>\<open>applyMagnetism\<close>: \<open>None\<close> when the guard \<^verbatim>\<open>dist > 0\<close> skips it,
  otherwise the pair handed to \<^verbatim>\<open>applyForce\<close>. The divisions are made in the source's
  order; one with divisor \<open>0\<close> ends the computation with the error value.
\<close>

definition magnetismForce :: "ParticleSystem \<Rightarrow> Particle \<Rightarrow> js_error + (real \<times> real) option" where
  "magnetismForce s particle =
     (let dx = magnetX (physics s) - p_x particle;
          dy = magnetY (physics s) - p_y particle;
          distSq = dx * dx + dy * dy;
          dist = sqrt distSq
      in if dist > 0
         then (case js_div (magnetismStrength (physics s) * p_mass particle) (distSq + 100) of
                 Inl err \<Rightarrow> Inl err
               | Inr force \<Rightarrow>
                   (case js_div dx dist of
                      Inl err \<Rightarrow> Inl err
                    | Inr ux \<Rightarrow>
                        (case js_div dy dist of
                           Inl err \<Rightarrow> Inl err
                         | Inr uy \<Rightarrow> Inr (Some (ux * force, uy * force)))))
         else Inr None)"

text \<open>
  \<^verbatim>\<open>applyMagnetism\<close>. A force term that is not a real number has no image in the
  real-valued particle state; the particle is left as it is in that case, which is shown
  below never to arise.
\<close>

definition applyMagnetism :: "ParticleSystem \<Rightarrow> Particle \<Rightarrow> Particle" where
  "applyMagnetism s particle =
     (case magnetismForce s particle of
        Inr (Some (fx, fy)) \<Rightarrow> applyForce fx fy particle
      | Inr None \<Rightarrow> particle
      | Inl err \<Rightarrow> particle)"

definition applyTurbulence :: "ParticleSystem \<Rightarrow> Particle \<Rightarrow> Particle" where
  "applyTurbulence s particle =
     (let noiseX = sin (p_x particle * turbulenceFrequency (physics s) + real (time s) * 0.01) *
                   cos (p_y particle * turbulenceFrequency (physics s));
          noiseY = cos (p_x particle * turbulenceFrequency (physics s)) *
                   sin (p_y particle * turbulenceFrequency (physics s) + real (time s) * 0.01)
      in applyForce (noiseX * turbulenceStrength (physics s)) (noiseY * turbulenceStrength (physics s)) particle)"

text \<open>
  The two force terms of \<^verbatim>\<open>applyOrbital\<close>, tangential and centripetal: \<open>None\<close> when the
  guard \<^verbatim>\<open>dist > 0\<close> skips them.
\<close>

definition orbitalForces :: "ParticleSystem \<Rightarrow> Particle \<Rightarrow> js_error + ((real \<times> real) \<times> (real \<times> real)) option" where
  "orbitalForces s particle =
     (let centerX = orbitalCenterX (physics s) * width s;
          centerY = orbitalCenterY (physics s) * height s;
          dx = p_x particle - centerX;
          dy = p_y particle - centerY;
          dist = sqrt (dx * dx + dy * dy)
      in if dist > 0
         then (let forceMag = orbitalStrength (physics s);
                   centripetalForce = 0.01
               in case js_div (- dy) dist of
                    Inl err \<Rightarrow> Inl err
                  | Inr tx \<Rightarrow>
                      (case js_div dx dist of
                         Inl err \<Rightarrow> Inl err
                       | Inr ty \<Rightarrow>
                           (case js_div (- dx) dist of
                              Inl err \<Rightarrow> Inl err
                            | Inr cx \<Rightarrow>
                                (case js_div (- dy) dist of
                                   Inl err \<Rightarrow> Inl err
                                 | Inr cy \<Rightarrow>
                                     Inr (Some ((tx * forceMag, ty * forceMag),
                                                (cx * centripetalForce, cy * centripetalForce)))))))
         else Inr None)"

definition applyOrbital :: "ParticleSystem \<Rightarrow> Particle \<Rightarrow> Particle" where
  "applyOrbital s particle =
     (case orbitalForces s particle of
        Inr (Some ((tx, ty), (cx, cy))) \<Rightarrow> applyForce cx cy (applyForce tx ty particle)
      | Inr None \<Rightarrow> particle
      | Inl err \<Rightarrow> particle)"

section \<open>The per-frame update\<close>

text \<open>The \<^verbatim>\<open>switch (this.physics.mode)\<close>; a mode that matches no case applies no force.\<close>

definition applyPhysics :: "ParticleSystem \<Rightarrow> Particle \<Rightarrow> Particle" where
  "applyPhysics s particle =
     (if mode (physics s) = ''gravity'' then applyGravity s particle
      else if mode (physics s) = ''magnetism'' then applyMagnetism s particle
      else if mode (physics s) = ''turbulence'' then applyTurbulence s particle
      else if mode (physics s) = ''orbital'' then applyOrbital s particle
      else particle)"

text \<open>
  The block guarded by \<^verbatim>\<open>audioBands && audioBands.length === 7\<close>. The argument is
  \<^verbatim>\<open>null\<close> (\<open>None\<close>) or an array of numbers; the three assignments are made in the
  source's order.
\<close>

definition applyAudio :: "real list option \<Rightarrow> Particle \<Rightarrow> Particle" where
  "applyAudio audioBands particle =
     (case audioBands of
        None \<Rightarrow> particle
      | Some bands \<Rightarrow>
          if length bands = 7
          then (let p1 = particle\<lparr> p_vy := p_vy particle + bands ! 1 * 0.5 \<rparr>;
                    p2 = p1\<lparr> p_vx := p_vx p1 + (bands ! 5 - 0.5) * 0.3 \<rparr>
                in p2\<lparr> p_size := p_size p2 * (1 + bands ! 3 * 0.2) \<rparr>)
          else particle)"

definition applyDamping :: "ParticleSystem \<Rightarrow> Particle \<Rightarrow> Particle" where
  "applyDamping s particle =
     particle\<lparr> p_vx := p_vx particle * damping (physics s),
                p_vy := p_vy particle * damping (physics s) \<rparr>"

definition handleBoundaries :: "ParticleSystem \<Rightarrow> Particle \<Rightarrow> Particle" where
  "handleBoundaries s particle =
     (if bounceEnabled (physics s) then bounce (width s) (height s) 0.8 particle
      else if wrapEnabled (physics s) then wrap (width s) (height s) particle
      else particle)"

text \<open>
  The body of the loop of \<^verbatim>\<open>ParticleSystem.update\<close> for one active particle, up to the
  insertion into the spatial hash: mode force, audio adjustments, damping, integration,
  boundary policy.
\<close>

definition stepParticle :: "ParticleSystem \<Rightarrow> real \<Rightarrow> real list option \<Rightarrow> Particle \<Rightarrow> Particle" where
  "stepParticle s deltaTime audioBands particle =
     handleBoundaries s
       (Particle_update (width s) (height s) deltaTime
          (applyDamping s (applyAudio audioBands (applyPhysics s particle))))"

text \<open>
  The loop over the pool. It carries the running \<^verbatim>\<open>activeParticleCount\<close> and the spatial
  hash; an inactive slot is skipped (\<^verbatim>\<open>continue\<close>).
\<close>

fun update_loop :: "ParticleSystem \<Rightarrow> real \<Rightarrow> real list option \<Rightarrow> Particle list \<Rightarrow> nat \<Rightarrow> SpatialHash \<Rightarrow> Particle list \<times> nat \<times> SpatialHash" where
  "update_loop s deltaTime audioBands [] c h = ([], c, h)"
| "update_loop s deltaTime audioBands (p # ps) c h =
     (if \<not> p_active p
      then (case update_loop s deltaTime audioBands ps c h of (ps', r) \<Rightarrow> (p # ps', r))
      else (let p' = stepParticle s deltaTime audioBands p
            in case update_loop s deltaTime audioBands ps (c + 1) (hash_insert p' h) of
                 (ps', r) \<Rightarrow> (p' # ps', r)))"

definition update :: "real \<Rightarrow> real list option \<Rightarrow> ParticleSystem \<Rightarrow> ParticleSystem" where
  "update deltaTime audioBands s =
     (let s1 = s\<lparr> time := time s + 1, spatialHash := hash_clear (spatialHash s),
                  activeParticleCount := 0 \<rparr>
      in case update_loop s1 deltaTime audioBands (particlePool s1) 0 (spatialHash s1) of
           (pool', c, h) \<Rightarrow> s1\<lparr> particlePool := pool', activeParticleCount := c, spatialHash := h \<rparr>)"

section \<open>Queries and setters\<close>

definition getActiveParticles :: "ParticleSystem \<Rightarrow> Particle list" where
  "getActiveParticles s = filter p_active (particlePool s)"

text \<open>
  The sampling loop of \<^verbatim>\<open>getActiveParticlesLOD\<close>: \<^verbatim>\<open>for (i = 0; i < maxParticles; i++)\<close>,
  pushing \<^verbatim>\<open>active[Math.floor(i * step)]\<close> onto \<^verbatim>\<open>sampled\<close>. The product is a double.
\<close>

function LOD_loop :: "Particle list \<Rightarrow> real \<Rightarrow> real \<Rightarrow> nat \<Rightarrow> Particle option list \<Rightarrow> Particle option list" where
  "LOD_loop active0 maxParticles0 step i sampled =
     (if real i < maxParticles0
      then LOD_loop active0 maxParticles0 step (i + 1) (sampled @ [js_index active0 \<lfloor>fl64 (real i * step)\<rfloor>])
      else sampled)"
  by pat_completeness auto
termination
  by (relation "measure (\<lambda>(active0, maxParticles0, step, i, sampled). nat \<lceil>maxParticles0\<rceil> - i)") (auto, linarith)

declare LOD_loop.simps [simp del]

text \<open>
  \<^verbatim>\<open>getActiveParticlesLOD(maxParticles)\<close>. The result is an array whose elements are
  particles, or \<^verbatim>\<open>undefined\<close> where the sampling loop read outside \<^verbatim>\<open>active\<close>. The
  quotient \<^verbatim>\<open>step\<close> is a double.
\<close>

definition getActiveParticlesLOD :: "real \<Rightarrow> ParticleSystem \<Rightarrow> Particle option list" where
  "getActiveParticlesLOD maxParticles0 s =
     (let active0 = getActiveParticles s
      in if real (length active0) \<le> maxParticles0 then map Some active0
         else (let step = fl64 (real (length active0) / maxParticles0)
               in LOD_loop active0 maxParticles0 step 0 []))"

text \<open>\<^verbatim>\<open>getStats\<close> only formats the counters as text and is left out.\<close>

definition clear :: "ParticleSystem \<Rightarrow> ParticleSystem" where
  "clear s = s\<lparr> particlePool := map (\<lambda>p. p\<lparr> p_active := False \<rparr>) (particlePool s),
                activeParticleCount := 0 \<rparr>"

definition validModes :: "string list" where
  "validModes = [''gravity'', ''magnetism'', ''turbulence'', ''orbital'']"

definition setPhysicsMode :: "string \<Rightarrow> ParticleSystem \<Rightarrow> ParticleSystem" where
  "setPhysicsMode m s =
     (if m \<in> set validModes then s\<lparr> physics := (physics s)\<lparr> mode := m \<rparr> \<rparr> else s)"

definition setEmissionPosition :: "real \<Rightarrow> real \<Rightarrow> ParticleSystem \<Rightarrow> ParticleSystem" where
  "setEmissionPosition ex ey s =
     s\<lparr> emission := (emission s)\<lparr> e_x := max 0 (min 1 ex), e_y := max 0 (min 1 ey) \<rparr> \<rparr>"

definition setMagnetPosition :: "real \<Rightarrow> real \<Rightarrow> ParticleSystem \<Rightarrow> ParticleSystem" where
  "setMagnetPosition mx my s = s\<lparr> physics := (physics s)\<lparr> magnetX := mx, magnetY := my \<rparr> \<rparr>"

section \<open>Sequences of calls\<close>

text \<open>
  A caller's sequence of \<^verbatim>\<open>emit(count, audioEnergy)\<close> calls, each with the random values
  it draws, and a run of \<open>k\<close> frames \<^verbatim>\<open>update(deltaTime, audioBands)\<close>.
\<close>

fun emits :: "(real \<times> real \<times> (nat \<Rightarrow> real)) list \<Rightarrow> ParticleSystem \<Rightarrow> ParticleSystem" where
  "emits [] s = s"
| "emits ((count0, audioEnergy, rnd) # calls) s = emits calls (emit count0 audioEnergy rnd s)"

fun updates :: "nat \<Rightarrow> real \<Rightarrow> real list option \<Rightarrow> ParticleSystem \<Rightarrow> ParticleSystem" where
  "updates 0 deltaTime audioBands s = s"
| "updates (Suc k) deltaTime audioBands s = updates k deltaTime audioBands (update deltaTime audioBands s)"

text \<open>
  The life that one call \<^verbatim>\<open>update(width, height, 1)\<close> leaves to an active particle of
  life \<open>l\<close>.
\<close>

definition decay :: "real \<Rightarrow> real" where
  "decay l = fl64 (l - fl64 (fl64 0.01 * 1))"

text \<open>A pool of three live particles, told apart by their hue, on an engine of capacity 3.\<close>

definition three_active :: ParticleSystem where
  "three_active =
     (new_ParticleSystem 3)\<lparr> particlePool :=
        [new_Particle\<lparr> p_active := True, p_hue := 10 \<rparr>,
         new_Particle\<lparr> p_active := True, p_hue := 20 \<rparr>,
         new_Particle\<lparr> p_active := True, p_hue := 30 \<rparr>] \<rparr>"

text \<open>An engine whose single slot holds a particle spawned at rest with size \<open>2\<close>.\<close>

definition one_at_rest :: ParticleSystem where
  "one_at_rest =
     (new_ParticleSystem 1)\<lparr> particlePool := [init 960 540 0 0 2 100 200 0 0.5 new_Particle] \<rparr>"

section \<open>The pool under emission\<close>

lemma firstInactive_Some:
  "firstInactive ps = Some i \<Longrightarrow> i < length ps \<and> \<not> p_active (ps ! i)"
  by (induction ps arbitrary: i) (auto split: if_splits)

lemma firstInactive_None: "(firstInactive ps = None) = (\<forall>p \<in> set ps. p_active p)"
  by (induction ps) auto

lemma spawn_fields:
  "p_active (spawn s e rnd k q)"
  "p_life (spawn s e rnd k q) =
     e_lifeMin (emission s) + rnd (k + 5) * (e_lifeMax (emission s) - e_lifeMin (emission s))"
  by (simp_all add: spawn_def init_def Let_def)

lemma emit_loop_full:
  "\<forall>p \<in> set (particlePool s). p_active p \<Longrightarrow> emit_loop n e rnd k s = s"
  by (cases n) (simp_all add: getParticle_def firstInactive_None [THEN iffD2])

lemma emit_loop_frame:
  "length (particlePool (emit_loop n e rnd k s)) = length (particlePool s) \<and>
   maxParticles (emit_loop n e rnd k s) = maxParticles s \<and>
   (\<forall>i < length (particlePool s). p_active (particlePool s ! i) \<longrightarrow>
      particlePool (emit_loop n e rnd k s) ! i = particlePool s ! i)"
proof (induction n arbitrary: s k)
  case 0
  show ?case by simp
next
  case (Suc n)
  show ?case
  proof (cases "getParticle s")
    case None
    then show ?thesis by simp
  next
    case (Some j)
    then have j: "j < length (particlePool s)" "\<not> p_active (particlePool s ! j)"
      using firstInactive_Some [of "particlePool s" j] by (simp_all add: getParticle_def)
    define s' where "s' = s\<lparr> particlePool := (particlePool s)[j := spawn s e rnd k (particlePool s ! j)] \<rparr>"
    have step: "emit_loop (Suc n) e rnd k s = emit_loop n e rnd (k + 9) s'"
      using Some by (simp add: s'_def)
    have len: "length (particlePool s') = length (particlePool s)" and mp: "maxParticles s' = maxParticles s"
      by (simp_all add: s'_def)
    have keep: "\<And>i. i < length (particlePool s) \<Longrightarrow> p_active (particlePool s ! i) \<Longrightarrow>
        particlePool s' ! i = particlePool s ! i \<and> p_active (particlePool s' ! i)"
      using j by (auto simp: s'_def nth_list_update)
    from Suc.IH [of "k + 9" s'] len mp keep show ?thesis
      unfolding step by auto
  qed
qed

lemma emits_frame:
  "length (particlePool (emits calls s)) = length (particlePool s) \<and>
   maxParticles (emits calls s) = maxParticles s"
proof (induction calls arbitrary: s)
  case Nil
  show ?case by simp
next
  case (Cons c calls)
  obtain a b r where c: "c = (a, b, r)" by (cases c)
  show ?case unfolding c using Cons [of "emit a b r s"] emit_loop_frame by (simp add: emit_def)
qed

text \<open>
  Claim C1. After any sequence of \<^verbatim>\<open>emit\<close> calls on a freshly constructed engine of
  capacity \<open>n\<close> the number of active particles is at most \<open>maxParticles\<close>, which is still
  \<open>n\<close>. One \<^verbatim>\<open>emit\<close> call keeps the pool at its capacity from any state whose pool has
  it; on a pool whose slots are all active it returns the state unchanged; and it leaves
  every slot that was active exactly as it was.
\<close>

theorem capacity_invariant:
  "length (getActiveParticles (emits calls (new_ParticleSystem n)))
      \<le> maxParticles (emits calls (new_ParticleSystem n)) \<and>
   maxParticles (emits calls (new_ParticleSystem n)) = n \<and>
   (length (particlePool s) = maxParticles s \<longrightarrow>
      length (getActiveParticles (emit c e rnd s)) \<le> maxParticles (emit c e rnd s) \<and>
      length (particlePool (emit c e rnd s)) = maxParticles (emit c e rnd s) \<and>
      maxParticles (emit c e rnd s) = maxParticles s) \<and>
   ((\<forall>p \<in> set (particlePool s). p_active p) \<longrightarrow> emit c e rnd s = s) \<and>
   (\<forall>i < length (particlePool s). p_active (particlePool s ! i) \<longrightarrow>
      particlePool (emit c e rnd s) ! i = particlePool s ! i)"
proof -
  have a: "length (particlePool (emits calls (new_ParticleSystem n))) = n"
    and b: "maxParticles (emits calls (new_ParticleSystem n)) = n"
    using emits_frame [of calls "new_ParticleSystem n"] by (simp_all add: new_ParticleSystem_def)
  have "length (getActiveParticles (emits calls (new_ParticleSystem n)))
      \<le> length (particlePool (emits calls (new_ParticleSystem n)))"
    by (simp add: getActiveParticles_def)
  then have 1: "length (getActiveParticles (emits calls (new_ParticleSystem n)))
      \<le> maxParticles (emits calls (new_ParticleSystem n))"
    using a b by simp
  have "length (getActiveParticles (emit c e rnd s)) \<le> length (particlePool (emit c e rnd s))"
    by (simp add: getActiveParticles_def)
  then have 2: "length (particlePool s) = maxParticles s \<longrightarrow>
      length (getActiveParticles (emit c e rnd s)) \<le> maxParticles (emit c e rnd s) \<and>
      length (particlePool (emit c e rnd s)) = maxParticles (emit c e rnd s) \<and>
      maxParticles (emit c e rnd s) = maxParticles s"
    using emit_loop_frame [of _ e rnd 0 s] by (simp add: emit_def)
  have 3: "(\<forall>p \<in> set (particlePool s). p_active p) \<longrightarrow> emit c e rnd s = s"
    using emit_loop_full [of s] by (simp add: emit_def)
  have 4: "\<forall>i < length (particlePool s). p_active (particlePool s ! i) \<longrightarrow>
      particlePool (emit c e rnd s) ! i = particlePool s ! i"
    using emit_loop_frame [of _ e rnd 0 s] by (simp add: emit_def)
  from 1 b 2 3 4 show ?thesis by blast
qed

lemma emit_full_example:
  "list_all p_active (particlePool (emit 5 0 (\<lambda>_. 0) (new_ParticleSystem 2)))"
  by (simp add: emit_def new_ParticleSystem_def getParticle_def eval_nat_numeral
      spawn_def init_def new_Particle_def Let_def)

theorem capacity_invariant_witness:
  "length (getActiveParticles (emits [(5, 0, \<lambda>_. 0), (3, 1, \<lambda>_. 0)] (new_ParticleSystem 2))) \<le> 2 \<and>
   emit 3 1 (\<lambda>_. 0) (emit 5 0 (\<lambda>_. 0) (new_ParticleSystem 2)) = emit 5 0 (\<lambda>_. 0) (new_ParticleSystem 2)"
proof -
  have full: "\<forall>p \<in> set (particlePool (emit 5 0 (\<lambda>_. 0) (new_ParticleSystem 2))). p_active p"
    using emit_full_example by (simp add: list_all_iff)
  note t = capacity_invariant [of "[(5, 0, \<lambda>_. 0), (3, 1, \<lambda>_. 0)]" 2
        "emit 5 0 (\<lambda>_. 0) (new_ParticleSystem 2)" 3 1 "\<lambda>_. 0"]
  from t have 1: "length (getActiveParticles (emits [(5, 0, \<lambda>_. 0), (3, 1, \<lambda>_. 0)] (new_ParticleSystem 2))) \<le> 2"
    by metis
  from t full have 2: "emit 3 1 (\<lambda>_. 0) (emit 5 0 (\<lambda>_. 0) (new_ParticleSystem 2)) = emit 5 0 (\<lambda>_. 0) (new_ParticleSystem 2)"
    by blast
  from 1 2 show ?thesis by (rule conjI)
qed

section \<open>Rounding to double\<close>

lemma round_even_error: "\<bar>of_int (round_even y) - y\<bar> \<le> 1 / 2"
proof -
  have "of_int \<lfloor>y\<rfloor> \<le> y" "y < of_int \<lfloor>y\<rfloor> + 1" by linarith+
  then show ?thesis by (auto simp: round_even_def Let_def)
qed

lemma round_even_bounds: "\<lfloor>y\<rfloor> \<le> round_even y" "round_even y \<le> \<lfloor>y\<rfloor> + 1"
  by (auto simp: round_even_def Let_def)

lemma round_even_mono: "a \<le> b \<Longrightarrow> round_even a \<le> round_even b"
proof -
  assume ab: "a \<le> b"
  then have fl: "\<lfloor>a\<rfloor> \<le> \<lfloor>b\<rfloor>" by (rule floor_mono)
  show ?thesis
  proof (cases "\<lfloor>a\<rfloor> = \<lfloor>b\<rfloor>")
    case True
    with ab show ?thesis by (auto simp: round_even_def Let_def)
  next
    case False
    with fl have "\<lfloor>a\<rfloor> + 1 \<le> \<lfloor>b\<rfloor>" by simp
    with round_even_bounds(2) [of a] round_even_bounds(1) [of b] show ?thesis by linarith
  qed
qed

lemma significand_range:
  assumes "v \<noteq> 0"
  shows "2 ^ 52 \<le> \<bar>v\<bar> / 2 powr of_int (\<lfloor>log 2 \<bar>v\<bar>\<rfloor> - 52)"
    and "\<bar>v\<bar> / 2 powr of_int (\<lfloor>log 2 \<bar>v\<bar>\<rfloor> - 52) < 2 ^ 53"
proof -
  let ?k = "\<lfloor>log 2 \<bar>v\<bar>\<rfloor>"
  have pos: "0 < \<bar>v\<bar>" using assms by simp
  have v: "\<bar>v\<bar> = 2 powr log 2 \<bar>v\<bar>" using pos by simp
  have q: "\<bar>v\<bar> / 2 powr of_int (?k - 52) = 2 powr (log 2 \<bar>v\<bar> - of_int (?k - 52))"
    by (subst v) (simp only: powr_diff)
  have lo: "52 \<le> log 2 \<bar>v\<bar> - of_int (?k - 52)" and hi: "log 2 \<bar>v\<bar> - of_int (?k - 52) < 53"
    by (simp_all, linarith+)
  have "(2::real) powr 52 \<le> 2 powr (log 2 \<bar>v\<bar> - of_int (?k - 52))"
    using lo by (intro powr_mono) simp_all
  then show "2 ^ 52 \<le> \<bar>v\<bar> / 2 powr of_int (?k - 52)"
    unfolding q by (simp add: powr_numeral)
  have "(2::real) powr (log 2 \<bar>v\<bar> - of_int (?k - 52)) < 2 powr 53"
    using hi by (intro powr_less_mono) simp_all
  then show "\<bar>v\<bar> / 2 powr of_int (?k - 52) < 2 ^ 53"
    unfolding q by (simp add: powr_numeral)
qed

lemma fl64_error: "\<bar>fl64 v - v\<bar> \<le> \<bar>v\<bar> / 2 ^ 53"
proof (cases "v = 0")
  case True
  then show ?thesis by (simp add: fl64_def)
next
  case False
  define s :: real where "s = 2 powr of_int (\<lfloor>log 2 \<bar>v\<bar>\<rfloor> - 52)"
  have s: "0 < s" by (simp add: s_def)
  have f: "fl64 v = of_int (round_even (v / s)) * s"
    using False by (simp add: fl64_def Let_def s_def)
  have "of_int (round_even (v / s)) * s - v = (of_int (round_even (v / s)) - v / s) * s"
    using s by (simp add: algebra_simps)
  then have "\<bar>fl64 v - v\<bar> = \<bar>of_int (round_even (v / s)) - v / s\<bar> * s"
    using s unfolding f by (simp only: abs_mult abs_of_pos)
  also have "\<dots> \<le> 1 / 2 * s"
    using s round_even_error [of "v / s"] by (intro mult_right_mono) simp_all
  also have "\<dots> \<le> \<bar>v\<bar> / 2 ^ 53"
  proof -
    have "2 ^ 52 \<le> \<bar>v\<bar> / s" using significand_range(1) [OF False] by (simp add: s_def)
    then have "2 ^ 52 * s \<le> \<bar>v\<bar>" using s by (simp add: pos_le_divide_eq)
    then show ?thesis by simp
  qed
  finally show ?thesis .
qed

lemma fl64_bounds: "v - \<bar>v\<bar> / 2 ^ 53 \<le> fl64 v" "fl64 v \<le> v + \<bar>v\<bar> / 2 ^ 53"
proof -
  define d where "d = \<bar>v\<bar> / 2 ^ 53"
  have "\<bar>fl64 v - v\<bar> \<le> d" unfolding d_def by (rule fl64_error)
  then have "v - d \<le> fl64 v" "fl64 v \<le> v + d" by linarith+
  then show "v - \<bar>v\<bar> / 2 ^ 53 \<le> fl64 v" "fl64 v \<le> v + \<bar>v\<bar> / 2 ^ 53"
    unfolding d_def by this+
qed

lemma fl64_sign:
  "0 \<le> v \<Longrightarrow> 0 \<le> fl64 v" "0 < v \<Longrightarrow> 0 < fl64 v" "v < 0 \<Longrightarrow> fl64 v < 0"
proof -
  define d where "d = \<bar>v\<bar> / 2 ^ 53"
  have b: "v - d \<le> fl64 v" "fl64 v \<le> v + d" unfolding d_def by (rule fl64_bounds)+
  have d: "2 * d \<le> \<bar>v\<bar>" unfolding d_def by simp
  show "0 \<le> v \<Longrightarrow> 0 \<le> fl64 v" using b d by linarith
  show "0 < v \<Longrightarrow> 0 < fl64 v" using b d by linarith
  show "v < 0 \<Longrightarrow> fl64 v < 0" using b d by linarith
qed

lemma fl64_mono_pos:
  assumes "0 < a" "a \<le> b"
  shows "fl64 a \<le> fl64 b"
proof -
  let ?ka = "\<lfloor>log 2 \<bar>a\<bar>\<rfloor>" and ?kb = "\<lfloor>log 2 \<bar>b\<bar>\<rfloor>"
  define sa :: real where "sa = 2 powr of_int (?ka - 52)"
  define sb :: real where "sb = 2 powr of_int (?kb - 52)"
  have a0: "a \<noteq> 0" and b0: "b \<noteq> 0" and bpos: "0 < b" using assms by simp_all
  have sa: "0 < sa" and sb: "0 < sb" by (simp_all add: sa_def sb_def)
  have fa: "fl64 a = of_int (round_even (a / sa)) * sa"
    using a0 by (simp add: fl64_def Let_def sa_def)
  have fb: "fl64 b = of_int (round_even (b / sb)) * sb"
    using b0 by (simp add: fl64_def Let_def sb_def)
  have "log 2 \<bar>a\<bar> \<le> log 2 \<bar>b\<bar>" using assms by simp
  then have k: "?ka \<le> ?kb" by (rule floor_mono)
  show ?thesis
  proof (cases "?ka = ?kb")
    case True
    then have same: "sa = sb" by (simp add: sa_def sb_def)
    have "a / sb \<le> b / sb" using assms(2) sb by (simp add: divide_right_mono)
    then have "round_even (a / sb) \<le> round_even (b / sb)" by (rule round_even_mono)
    then have "real_of_int (round_even (a / sb)) * sb \<le> real_of_int (round_even (b / sb)) * sb"
      using sb by (intro mult_right_mono) simp_all
    then show ?thesis unfolding fa fb same .
  next
    case False
    with k have lt: "?ka + 1 \<le> ?kb" by simp
    have "\<bar>a\<bar> / sa < 2 ^ 53" using significand_range(2) [OF a0] by (simp add: sa_def)
    then have "a / sa < real_of_int (2 ^ 53)" using assms(1) by simp
    then have "\<lfloor>a / sa\<rfloor> < 2 ^ 53" by (simp only: floor_less_iff)
    with round_even_bounds(2) [of "a / sa"] have "round_even (a / sa) \<le> 2 ^ 53" by linarith
    then have "real_of_int (round_even (a / sa)) \<le> 2 ^ 53" by (metis of_int_le_iff of_int_numeral of_int_power)
    then have "fl64 a \<le> 2 ^ 53 * sa" unfolding fa using sa by (intro mult_right_mono) simp_all
    also have "\<dots> = 2 powr of_int (?ka + 1)"
      by (simp add: sa_def powr_diff powr_add powr_numeral)
    also have "\<dots> \<le> 2 powr of_int ?kb"
      using lt by (intro powr_mono) simp_all
    also have "\<dots> = 2 ^ 52 * sb"
      by (simp add: sb_def powr_diff powr_numeral)
    also have "\<dots> \<le> fl64 b"
    proof -
      have "2 ^ 52 \<le> \<bar>b\<bar> / sb" using significand_range(1) [OF b0] by (simp add: sb_def)
      then have "real_of_int (2 ^ 52) \<le> b / sb" using bpos by simp
      then have "2 ^ 52 \<le> \<lfloor>b / sb\<rfloor>" by (simp only: le_floor_iff)
      with round_even_bounds(1) [of "b / sb"] have "2 ^ 52 \<le> round_even (b / sb)" by linarith
      then have "2 ^ 52 \<le> real_of_int (round_even (b / sb))" by (metis of_int_le_iff of_int_numeral of_int_power)
      then show ?thesis unfolding fb using sb by (intro mult_right_mono) simp_all
    qed
    finally show ?thesis .
  qed
qed

lemma fl64_mono: "0 \<le> a \<Longrightarrow> a \<le> b \<Longrightarrow> fl64 a \<le> fl64 b"
proof (cases "a = 0")
  case True
  assume "0 \<le> a" "a \<le> b"
  with True fl64_sign(1) [of b] show ?thesis by (simp add: fl64_def)
next
  case False
  assume "0 \<le> a" "a \<le> b"
  with False show ?thesis by (intro fl64_mono_pos) simp_all
qed

lemma fl64_binade:
  assumes "2 powr of_int k \<le> \<bar>v\<bar>" "\<bar>v\<bar> < 2 powr of_int (k + 1)"
  shows "fl64 v = of_int (round_even (v / 2 powr of_int (k - 52))) * 2 powr of_int (k - 52)"
proof -
  have "(0::real) < 2 powr of_int k" by simp
  with assms(1) have pos: "0 < \<bar>v\<bar>" by linarith
  then have v0: "v \<noteq> 0" by simp
  have "of_int k \<le> log 2 \<bar>v\<bar>" using assms(1) pos by (simp add: le_log_iff)
  moreover have "log 2 \<bar>v\<bar> < of_int k + 1" using assms(2) pos by (simp add: log_less_iff)
  ultimately have "\<lfloor>log 2 \<bar>v\<bar>\<rfloor> = k" by (simp add: floor_eq_iff)
  then show ?thesis using v0 by (simp add: fl64_def Let_def)
qed

text \<open>The decrement of the countdown and one step of it differ from \<open>0.01\<close> and from
  the exact difference by rounding only.\<close>

lemma literal_bounds: "0.00999 \<le> fl64 0.01" "fl64 0.01 \<le> 0.01001"
proof -
  have "0.01 - \<bar>0.01\<bar> / 2 ^ 53 \<le> fl64 0.01" "fl64 0.01 \<le> 0.01 + \<bar>0.01\<bar> / 2 ^ 53"
    by (rule fl64_bounds)+
  then show "0.00999 \<le> fl64 0.01" "fl64 0.01 \<le> 0.01001" by simp_all
qed

lemma decrement_bounds: "0.0099 \<le> fl64 (fl64 0.01 * 1)" "fl64 (fl64 0.01 * 1) \<le> 0.0101"
proof -
  have c: "0.00999 \<le> fl64 0.01" "fl64 0.01 \<le> 0.01001" by (rule literal_bounds)+
  define t where "t = fl64 0.01"
  have b: "t - \<bar>t\<bar> / 2 ^ 53 \<le> fl64 t" "fl64 t \<le> t + \<bar>t\<bar> / 2 ^ 53" by (rule fl64_bounds)+
  have "\<bar>t\<bar> / 2 ^ 53 \<le> 0.00001" using c unfolding t_def [symmetric] by simp
  with b c show "0.0099 \<le> fl64 (fl64 0.01 * 1)" "fl64 (fl64 0.01 * 1) \<le> 0.0101"
    unfolding t_def [symmetric] by simp_all
qed

lemma decay_close:
  assumes "0 \<le> l" "l \<le> 1000"
  shows "\<bar>decay l - (l - 0.01)\<bar> \<le> 1 / 2 ^ 43"
proof -
  define t where "t = fl64 (fl64 0.01 * 1)"
  define u :: real where "u = 1 / 9007199254740992"
  have a: "\<bar>fl64 0.01 - 0.01\<bar> \<le> \<bar>0.01\<bar> / 2 ^ 53" by (rule fl64_error)
  have b: "\<bar>t - fl64 0.01\<bar> \<le> \<bar>fl64 0.01\<bar> / 2 ^ 53" unfolding t_def using fl64_error [of "fl64 0.01"] by simp
  have c: "0.0099 \<le> t" "t \<le> 0.0101" unfolding t_def by (rule decrement_bounds)+
  have "\<bar>fl64 0.01\<bar> \<le> 1" using literal_bounds by simp
  then have b': "\<bar>t - fl64 0.01\<bar> \<le> u" using b by (simp add: u_def)
  have a': "\<bar>fl64 0.01 - 0.01\<bar> \<le> u" using a by (simp add: u_def)
  have d: "\<bar>fl64 (l - t) - (l - t)\<bar> \<le> \<bar>l - t\<bar> / 2 ^ 53" by (rule fl64_error)
  have "\<bar>l - t\<bar> \<le> 1001" using assms c by simp
  then have d': "\<bar>fl64 (l - t) - (l - t)\<bar> \<le> 1001 * u" using d by (simp add: u_def)
  have "\<bar>fl64 (l - t) - (l - 0.01)\<bar> \<le> 1003 * u"
    using a' b' d' by linarith
  then show ?thesis
    unfolding decay_def t_def [symmetric] by (simp add: u_def)
qed

section \<open>Particle lifetime\<close>

lemma Particle_update_inactive: "\<not> p_active q \<Longrightarrow> Particle_update w h dt q = q"
  by (simp add: Particle_update_def)

lemma Particle_update_life:
  "p_active q \<Longrightarrow> p_life (Particle_update w h dt q) = fl64 (p_life q - fl64 (fl64 0.01 * dt))"
  by (simp add: Particle_update_def Let_def)

lemma Particle_update_active:
  "p_active q \<Longrightarrow> p_active (Particle_update w h dt q) = (0 < fl64 (p_life q - fl64 (fl64 0.01 * dt)))"
  by (simp add: Particle_update_def Let_def)

lemma Particle_update_decay:
  "p_active q \<Longrightarrow> p_life (Particle_update w h 1 q) = decay (p_life q)"
  "p_active q \<Longrightarrow> p_active (Particle_update w h 1 q) = (0 < decay (p_life q))"
  by (simp_all add: Particle_update_life Particle_update_active decay_def)

lemma advance_alive:
  "p_active p \<Longrightarrow> \<forall>j. 0 < j \<and> j \<le> k \<longrightarrow> 0 < (decay ^^ j) (p_life p) \<Longrightarrow>
     p_active ((Particle_update w h 1 ^^ k) p) \<and>
     p_life ((Particle_update w h 1 ^^ k) p) = (decay ^^ k) (p_life p)"
proof (induction k)
  case 0
  then show ?case by simp
next
  case (Suc k)
  then have ih: "p_active ((Particle_update w h 1 ^^ k) p)"
    "p_life ((Particle_update w h 1 ^^ k) p) = (decay ^^ k) (p_life p)"
    by simp_all
  from Suc.prems(2) have "0 < (decay ^^ Suc k) (p_life p)" by blast
  with ih show ?case
    by (simp add: Particle_update_decay)
qed

lemma advance_inactive: "\<not> p_active q \<Longrightarrow> (Particle_update w h 1 ^^ k) q = q"
  by (induction k) (simp_all add: Particle_update_inactive)

lemma advance_last:
  assumes "p_active p" "0 < k0" "\<forall>j. 0 < j \<and> j < k0 \<longrightarrow> 0 < (decay ^^ j) (p_life p)"
    "(decay ^^ k0) (p_life p) \<le> 0"
  shows "\<not> p_active ((Particle_update w h 1 ^^ k0) p) \<and>
         p_life ((Particle_update w h 1 ^^ k0) p) = (decay ^^ k0) (p_life p)"
proof -
  from assms(2) obtain j where j: "k0 = Suc j" by (cases k0) auto
  have "\<forall>i. 0 < i \<and> i \<le> j \<longrightarrow> 0 < (decay ^^ i) (p_life p)" using assms(3) j by auto
  from advance_alive [OF assms(1) this, of w h]
  have a: "p_active ((Particle_update w h 1 ^^ j) p)"
    and l: "p_life ((Particle_update w h 1 ^^ j) p) = (decay ^^ j) (p_life p)" by simp_all
  from assms(4) a l show ?thesis
    unfolding j by (simp add: Particle_update_life Particle_update_active decay_def)
qed

text \<open>
  Claim C2, as the code has it. A particle is spawned by \<^verbatim>\<open>init\<close> with life \<open>L\<close> and
  advanced \<open>k\<close> times with \<open>deltaTime = 1\<close>. Each call on the active particle replaces
  its life \<open>l\<close> by \<open>decay l\<close>, the double subtraction \<open>l - 0.01\<close>, which is within
  \<open>2\<^sup>-\<^sup>4\<^sup>3\<close> of the exact difference for \<open>0 \<le> l \<le> 1000\<close>. As long as the values
  so obtained are positive the particle is active and holds the \<open>k\<close>-th of them. The
  first call that leaves a value \<open>\<le> 0\<close> makes it inactive; from then on nothing changes
  any more, so the life stays at that value: it is not clamped at \<open>0\<close> (only
  \<^verbatim>\<open>alpha\<close> is).
\<close>

theorem conservation_of_life:
  "((\<forall>j. 0 < j \<and> j \<le> k \<longrightarrow> 0 < (decay ^^ j) L) \<longrightarrow>
       p_active ((Particle_update w h 1 ^^ k) (init x0 y0 vx0 vy0 size0 L hue0 r1 r2 q)) \<and>
       p_life ((Particle_update w h 1 ^^ k) (init x0 y0 vx0 vy0 size0 L hue0 r1 r2 q)) = (decay ^^ k) L) \<and>
   (0 < k0 \<and> (\<forall>j. 0 < j \<and> j < k0 \<longrightarrow> 0 < (decay ^^ j) L) \<and> (decay ^^ k0) L \<le> 0 \<and> k0 \<le> k \<longrightarrow>
       \<not> p_active ((Particle_update w h 1 ^^ k) (init x0 y0 vx0 vy0 size0 L hue0 r1 r2 q)) \<and>
       (Particle_update w h 1 ^^ k) (init x0 y0 vx0 vy0 size0 L hue0 r1 r2 q) =
         (Particle_update w h 1 ^^ k0) (init x0 y0 vx0 vy0 size0 L hue0 r1 r2 q) \<and>
       p_life ((Particle_update w h 1 ^^ k) (init x0 y0 vx0 vy0 size0 L hue0 r1 r2 q)) = (decay ^^ k0) L) \<and>
   (0 \<le> l \<and> l \<le> 1000 \<longrightarrow> \<bar>decay l - (l - 0.01)\<bar> \<le> 1 / 2 ^ 43)"
proof -
  define p where "p = init x0 y0 vx0 vy0 size0 L hue0 r1 r2 q"
  have act: "p_active p" and life: "p_life p = L" by (simp_all add: p_def init_def)
  have A: "(\<forall>j. 0 < j \<and> j \<le> k \<longrightarrow> 0 < (decay ^^ j) L) \<longrightarrow>
       p_active ((Particle_update w h 1 ^^ k) p) \<and> p_life ((Particle_update w h 1 ^^ k) p) = (decay ^^ k) L"
    using advance_alive [OF act, of k w h] unfolding life by blast
  have B: "0 < k0 \<and> (\<forall>j. 0 < j \<and> j < k0 \<longrightarrow> 0 < (decay ^^ j) L) \<and> (decay ^^ k0) L \<le> 0 \<and> k0 \<le> k \<longrightarrow>
       \<not> p_active ((Particle_update w h 1 ^^ k) p) \<and>
       (Particle_update w h 1 ^^ k) p = (Particle_update w h 1 ^^ k0) p \<and>
       p_life ((Particle_update w h 1 ^^ k) p) = (decay ^^ k0) L"
  proof
    assume h: "0 < k0 \<and> (\<forall>j. 0 < j \<and> j < k0 \<longrightarrow> 0 < (decay ^^ j) L) \<and> (decay ^^ k0) L \<le> 0 \<and> k0 \<le> k"
    then have last: "\<not> p_active ((Particle_update w h 1 ^^ k0) p)"
      "p_life ((Particle_update w h 1 ^^ k0) p) = (decay ^^ k0) L"
      using advance_last [OF act, of k0 w h] unfolding life by simp_all
    from h obtain d where d: "k = d + k0" by (metis le_add_diff_inverse2)
    have "(Particle_update w h 1 ^^ k) p = (Particle_update w h 1 ^^ k0) p"
      unfolding d funpow_add o_apply using last(1) by (rule advance_inactive)
    with last show "\<not> p_active ((Particle_update w h 1 ^^ k) p) \<and>
       (Particle_update w h 1 ^^ k) p = (Particle_update w h 1 ^^ k0) p \<and>
       p_life ((Particle_update w h 1 ^^ k) p) = (decay ^^ k0) L"
      by simp
  qed
  have C: "0 \<le> l \<and> l \<le> 1000 \<longrightarrow> \<bar>decay l - (l - 0.01)\<bar> \<le> 1 / 2 ^ 43"
    using decay_close [of l] by blast
  from A B C show ?thesis unfolding p_def by (intro conjI)
qed

lemma decay_from_0015:
  "0 < decay 0.015" "decay (decay 0.015) < 0"
proof -
  define u :: real where "u = 1 / 2 ^ 43"
  define a where "a = decay 0.015"
  define b where "b = decay a"
  have u: "0 \<le> u" "u \<le> 1 / 1000" by (simp_all add: u_def)
  have "\<bar>decay 0.015 - (0.015 - 0.01)\<bar> \<le> u" unfolding u_def by (rule decay_close) simp_all
  then have 1: "\<bar>a - 1 / 200\<bar> \<le> u" unfolding a_def by simp
  with u show pos: "0 < decay 0.015" unfolding a_def [symmetric] by linarith
  from 1 u have "a \<le> 1000" by linarith
  with pos have "\<bar>decay a - (a - 0.01)\<bar> \<le> u"
    unfolding u_def a_def [symmetric] by (intro decay_close) simp_all
  then have 2: "\<bar>b - (a - 1 / 100)\<bar> \<le> u" unfolding b_def by simp
  with 1 u show "decay (decay 0.015) < 0" unfolding a_def [symmetric] b_def [symmetric] by linarith
qed

theorem conservation_of_life_witness:
  "p_active ((Particle_update 1920 1080 1 ^^ 1) (init 0 0 0 0 2 0.015 200 0 0 new_Particle)) \<and>
   \<not> p_active ((Particle_update 1920 1080 1 ^^ 5) (init 0 0 0 0 2 0.015 200 0 0 new_Particle)) \<and>
   p_life ((Particle_update 1920 1080 1 ^^ 5) (init 0 0 0 0 2 0.015 200 0 0 new_Particle)) = decay (decay 0.015)"
proof -
  have two: "(decay ^^ 2) 0.015 = decay (decay 0.015)" by (simp add: numeral_2_eq_2)
  have a1: "\<forall>j. 0 < j \<and> j \<le> 1 \<longrightarrow> 0 < (decay ^^ j) 0.015"
  proof (intro allI impI)
    fix j :: nat assume "0 < j \<and> j \<le> 1"
    then have "j = 1" by simp
    then show "0 < (decay ^^ j) 0.015" using decay_from_0015(1) by simp
  qed
  have a2: "(0::nat) < 2 \<and> (\<forall>j. 0 < j \<and> j < 2 \<longrightarrow> 0 < (decay ^^ j) 0.015) \<and> (decay ^^ 2) 0.015 \<le> 0 \<and> (2::nat) \<le> 5"
  proof (intro conjI allI impI)
    fix j :: nat assume "0 < j \<and> j < 2"
    then have "j = 1" by simp
    then show "0 < (decay ^^ j) 0.015" using decay_from_0015(1) by simp
  next
    show "(decay ^^ 2) 0.015 \<le> 0" unfolding two using decay_from_0015(2) by simp
  qed simp_all
  note alive = conservation_of_life [of 1 "0.015" 1920 1080 0 0 0 0 2 200 0 0 new_Particle 2 0,
      THEN conjunct1, THEN mp, OF a1]
  note dead = conservation_of_life [of 5 "0.015" 1920 1080 0 0 0 0 2 200 0 0 new_Particle 2 0,
      THEN conjunct2, THEN conjunct1, THEN mp, OF a2]
  show ?thesis
    using alive [THEN conjunct1] dead [THEN conjunct1] dead [THEN conjunct2, THEN conjunct2]
    unfolding two by (intro conjI)
qed

text \<open>
  The claim as stated (life clamped at \<open>0\<close>) fails: spawned with life \<open>0.015\<close> and advanced
  twice, the particle holds a negative life, not \<open>max 0 (0.015 - 0.01 * 2) = 0\<close>.
\<close>

theorem conservation_of_life_counterexample:
  "p_life ((Particle_update 1920 1080 1 ^^ 2) (init 0 0 0 0 2 0.015 200 0 0 new_Particle)) < 0 \<and>
   p_life ((Particle_update 1920 1080 1 ^^ 2) (init 0 0 0 0 2 0.015 200 0 0 new_Particle))
     \<noteq> max 0 (0.015 - 0.01 * 2)"
proof -
  define p where "p = init 0 0 0 0 2 0.015 200 0 0 new_Particle"
  have act: "p_active p" and life: "p_life p = 0.015" by (simp_all add: p_def init_def)
  have two: "(decay ^^ 2) 0.015 = decay (decay 0.015)" by (simp add: numeral_2_eq_2)
  have before: "\<forall>j. 0 < j \<and> j < 2 \<longrightarrow> 0 < (decay ^^ j) (p_life p)"
  proof (intro allI impI)
    fix j :: nat assume "0 < j \<and> j < 2"
    then have "j = 1" by simp
    then show "0 < (decay ^^ j) (p_life p)" using decay_from_0015(1) by (simp add: life)
  qed
  have "(decay ^^ 2) (p_life p) \<le> 0" unfolding life two using decay_from_0015(2) by simp
  from advance_last [OF act _ before this, of 1920 1080]
  have "p_life ((Particle_update 1920 1080 1 ^^ 2) p) = decay (decay 0.015)"
    unfolding life two by simp
  with decay_from_0015(2) show ?thesis unfolding p_def by simp
qed

section \<open>The countdown traced in doubles\<close>

lemma literal_0_01: "fl64 (0.01) = 5764607523034235 / 576460752303423488"
proof -
  have x: "(0.01 :: real) = 1 / 100" by simp
  have s: "(2::real) powr of_int (- 7 - 52) = 1 / 576460752303423488"
    by (simp add: powr_minus powr_numeral)
  have lo: "(2::real) powr of_int (- 7) = 1 / 128" and hi: "(2::real) powr of_int (- 7 + 1) = 1 / 64"
    by (simp_all add: powr_minus powr_numeral)
  have b1: "2 powr of_int (- 7) \<le> \<bar>1 / 100 :: real\<bar>" unfolding lo by simp
  have b2: "\<bar>1 / 100 :: real\<bar> < 2 powr of_int (- 7 + 1)" unfolding hi by simp
  have "fl64 (1 / 100) =
      of_int (round_even ((1 / 100) / 2 powr of_int (- 7 - 52))) * 2 powr of_int (- 7 - 52)"
    using b1 b2 by (rule fl64_binade)
  also have "(1 / 100) / (2::real) powr of_int (- 7 - 52) = 144115188075855872 / 25"
    unfolding s by simp
  also have "round_even (144115188075855872 / 25) = 5764607523034235"
    by (simp add: round_even_def Let_def)
  finally show ?thesis unfolding x s by simp
qed

lemma decrement_value: "fl64 (5764607523034235 / 576460752303423488 * 1) = 5764607523034235 / 576460752303423488"
proof -
  have x: "(5764607523034235 / 576460752303423488 * 1 :: real) = 5764607523034235 / 576460752303423488" by simp
  have s: "(2::real) powr of_int (- 7 - 52) = 1 / 576460752303423488"
    by (simp add: powr_minus powr_numeral)
  have lo: "(2::real) powr of_int (- 7) = 1 / 128" and hi: "(2::real) powr of_int (- 7 + 1) = 1 / 64"
    by (simp_all add: powr_minus powr_numeral)
  have b1: "2 powr of_int (- 7) \<le> \<bar>5764607523034235 / 576460752303423488 :: real\<bar>" unfolding lo by simp
  have b2: "\<bar>5764607523034235 / 576460752303423488 :: real\<bar> < 2 powr of_int (- 7 + 1)" unfolding hi by simp
  have "fl64 (5764607523034235 / 576460752303423488) =
      of_int (round_even ((5764607523034235 / 576460752303423488) / 2 powr of_int (- 7 - 52))) * 2 powr of_int (- 7 - 52)"
    using b1 b2 by (rule fl64_binade)
  also have "(5764607523034235 / 576460752303423488) / (2::real) powr of_int (- 7 - 52) = 5764607523034235"
    unfolding s by simp
  also have "round_even (5764607523034235) = 5764607523034235"
    by (simp add: round_even_def Let_def)
  finally show ?thesis unfolding x s by simp
qed

lemma countdown_1: "fl64 (3602879701896397 / 36028797018963968 - 5764607523034235 / 576460752303423488) = 6485183463413515 / 72057594037927936"
proof -
  have x: "(3602879701896397 / 36028797018963968 - 5764607523034235 / 576460752303423488 :: real) = 51881467707308117 / 576460752303423488" by simp
  have s: "(2::real) powr of_int (- 4 - 52) = 1 / 72057594037927936"
    by (simp add: powr_minus powr_numeral)
  have lo: "(2::real) powr of_int (- 4) = 1 / 16" and hi: "(2::real) powr of_int (- 4 + 1) = 1 / 8"
    by (simp_all add: powr_minus powr_numeral)
  have b1: "2 powr of_int (- 4) \<le> \<bar>51881467707308117 / 576460752303423488 :: real\<bar>" unfolding lo by simp
  have b2: "\<bar>51881467707308117 / 576460752303423488 :: real\<bar> < 2 powr of_int (- 4 + 1)" unfolding hi by simp
  have "fl64 (51881467707308117 / 576460752303423488) =
      of_int (round_even ((51881467707308117 / 576460752303423488) / 2 powr of_int (- 4 - 52))) * 2 powr of_int (- 4 - 52)"
    using b1 b2 by (rule fl64_binade)
  also have "(51881467707308117 / 576460752303423488) / (2::real) powr of_int (- 4 - 52) = 51881467707308117 / 8"
    unfolding s by simp
  also have "round_even (51881467707308117 / 8) = 6485183463413515"
    by (simp add: round_even_def Let_def)
  finally show ?thesis unfolding x s by simp
qed

lemma decay_1: "decay (3602879701896397 / 36028797018963968) = 6485183463413515 / 72057594037927936"
  unfolding decay_def literal_0_01 decrement_value countdown_1 by (rule refl)

lemma countdown_2: "fl64 (6485183463413515 / 72057594037927936 - 5764607523034235 / 576460752303423488) = 1441151880758559 / 18014398509481984"
proof -
  have x: "(6485183463413515 / 72057594037927936 - 5764607523034235 / 576460752303423488 :: real) = 46116860184273885 / 576460752303423488" by simp
  have s: "(2::real) powr of_int (- 4 - 52) = 1 / 72057594037927936"
    by (simp add: powr_minus powr_numeral)
  have lo: "(2::real) powr of_int (- 4) = 1 / 16" and hi: "(2::real) powr of_int (- 4 + 1) = 1 / 8"
    by (simp_all add: powr_minus powr_numeral)
  have b1: "2 powr of_int (- 4) \<le> \<bar>46116860184273885 / 576460752303423488 :: real\<bar>" unfolding lo by simp
  have b2: "\<bar>46116860184273885 / 576460752303423488 :: real\<bar> < 2 powr of_int (- 4 + 1)" unfolding hi by simp
  have "fl64 (46116860184273885 / 576460752303423488) =
      of_int (round_even ((46116860184273885 / 576460752303423488) / 2 powr of_int (- 4 - 52))) * 2 powr of_int (- 4 - 52)"
    using b1 b2 by (rule fl64_binade)
  also have "(46116860184273885 / 576460752303423488) / (2::real) powr of_int (- 4 - 52) = 46116860184273885 / 8"
    unfolding s by simp
  also have "round_even (46116860184273885 / 8) = 5764607523034236"
    by (simp add: round_even_def Let_def)
  finally show ?thesis unfolding x s by simp
qed

lemma decay_2: "decay (6485183463413515 / 72057594037927936) = 1441151880758559 / 18014398509481984"
  unfolding decay_def literal_0_01 decrement_value countdown_2 by (rule refl)

lemma countdown_3: "fl64 (1441151880758559 / 18014398509481984 - 5764607523034235 / 576460752303423488) = 5044031582654957 / 72057594037927936"
proof -
  have x: "(1441151880758559 / 18014398509481984 - 5764607523034235 / 576460752303423488 :: real) = 40352252661239653 / 576460752303423488" by simp
  have s: "(2::real) powr of_int (- 4 - 52) = 1 / 72057594037927936"
    by (simp add: powr_minus powr_numeral)
  have lo: "(2::real) powr of_int (- 4) = 1 / 16" and hi: "(2::real) powr of_int (- 4 + 1) = 1 / 8"
    by (simp_all add: powr_minus powr_numeral)
  have b1: "2 powr of_int (- 4) \<le> \<bar>40352252661239653 / 576460752303423488 :: real\<bar>" unfolding lo by simp
  have b2: "\<bar>40352252661239653 / 576460752303423488 :: real\<bar> < 2 powr of_int (- 4 + 1)" unfolding hi by simp
  have "fl64 (40352252661239653 / 576460752303423488) =
      of_int (round_even ((40352252661239653 / 576460752303423488) / 2 powr of_int (- 4 - 52))) * 2 powr of_int (- 4 - 52)"
    using b1 b2 by (rule fl64_binade)
  also have "(40352252661239653 / 576460752303423488) / (2::real) powr of_int (- 4 - 52) = 40352252661239653 / 8"
    unfolding s by simp
  also have "round_even (40352252661239653 / 8) = 5044031582654957"
    by (simp add: round_even_def Let_def)
  finally show ?thesis unfolding x s by simp
qed

lemma decay_3: "decay (1441151880758559 / 18014398509481984) = 5044031582654957 / 72057594037927936"
  unfolding decay_def literal_0_01 decrement_value countdown_3 by (rule refl)

lemma countdown_4: "fl64 (5044031582654957 / 72057594037927936 - 5764607523034235 / 576460752303423488) = 8646911284551355 / 144115188075855872"
proof -
  have x: "(5044031582654957 / 72057594037927936 - 5764607523034235 / 576460752303423488 :: real) = 34587645138205421 / 576460752303423488" by simp
  have s: "(2::real) powr of_int (- 5 - 52) = 1 / 144115188075855872"
    by (simp add: powr_minus powr_numeral)
  have lo: "(2::real) powr of_int (- 5) = 1 / 32" and hi: "(2::real) powr of_int (- 5 + 1) = 1 / 16"
    by (simp_all add: powr_minus powr_numeral)
  have b1: "2 powr of_int (- 5) \<le> \<bar>34587645138205421 / 576460752303423488 :: real\<bar>" unfolding lo by simp
  have b2: "\<bar>34587645138205421 / 576460752303423488 :: real\<bar> < 2 powr of_int (- 5 + 1)" unfolding hi by simp
  have "fl64 (34587645138205421 / 576460752303423488) =
      of_int (round_even ((34587645138205421 / 576460752303423488) / 2 powr of_int (- 5 - 52))) * 2 powr of_int (- 5 - 52)"
    using b1 b2 by (rule fl64_binade)
  also have "(34587645138205421 / 576460752303423488) / (2::real) powr of_int (- 5 - 52) = 34587645138205421 / 4"
    unfolding s by simp
  also have "round_even (34587645138205421 / 4) = 8646911284551355"
    by (simp add: round_even_def Let_def)
  finally show ?thesis unfolding x s by simp
qed

lemma decay_4: "decay (5044031582654957 / 72057594037927936) = 8646911284551355 / 144115188075855872"
  unfolding decay_def literal_0_01 decrement_value countdown_4 by (rule refl)

lemma countdown_5: "fl64 (8646911284551355 / 144115188075855872 - 5764607523034235 / 576460752303423488) = 1801439850948199 / 36028797018963968"
proof -
  have x: "(8646911284551355 / 144115188075855872 - 5764607523034235 / 576460752303423488 :: real) = 28823037615171185 / 576460752303423488" by simp
  have s: "(2::real) powr of_int (- 5 - 52) = 1 / 144115188075855872"
    by (simp add: powr_minus powr_numeral)
  have lo: "(2::real) powr of_int (- 5) = 1 / 32" and hi: "(2::real) powr of_int (- 5 + 1) = 1 / 16"
    by (simp_all add: powr_minus powr_numeral)
  have b1: "2 powr of_int (- 5) \<le> \<bar>28823037615171185 / 576460752303423488 :: real\<bar>" unfolding lo by simp
  have b2: "\<bar>28823037615171185 / 576460752303423488 :: real\<bar> < 2 powr of_int (- 5 + 1)" unfolding hi by simp
  have "fl64 (28823037615171185 / 576460752303423488) =
      of_int (round_even ((28823037615171185 / 576460752303423488) / 2 powr of_int (- 5 - 52))) * 2 powr of_int (- 5 - 52)"
    using b1 b2 by (rule fl64_binade)
  also have "(28823037615171185 / 576460752303423488) / (2::real) powr of_int (- 5 - 52) = 28823037615171185 / 4"
    unfolding s by simp
  also have "round_even (28823037615171185 / 4) = 7205759403792796"
    by (simp add: round_even_def Let_def)
  finally show ?thesis unfolding x s by simp
qed

lemma decay_5: "decay (8646911284551355 / 144115188075855872) = 1801439850948199 / 36028797018963968"
  unfolding decay_def literal_0_01 decrement_value countdown_5 by (rule refl)

lemma countdown_6: "fl64 (1801439850948199 / 36028797018963968 - 5764607523034235 / 576460752303423488) = 5764607523034237 / 144115188075855872"
proof -
  have x: "(1801439850948199 / 36028797018963968 - 5764607523034235 / 576460752303423488 :: real) = 23058430092136949 / 576460752303423488" by simp
  have s: "(2::real) powr of_int (- 5 - 52) = 1 / 144115188075855872"
    by (simp add: powr_minus powr_numeral)
  have lo: "(2::real) powr of_int (- 5) = 1 / 32" and hi: "(2::real) powr of_int (- 5 + 1) = 1 / 16"
    by (simp_all add: powr_minus powr_numeral)
  have b1: "2 powr of_int (- 5) \<le> \<bar>23058430092136949 / 576460752303423488 :: real\<bar>" unfolding lo by simp
  have b2: "\<bar>23058430092136949 / 576460752303423488 :: real\<bar> < 2 powr of_int (- 5 + 1)" unfolding hi by simp
  have "fl64 (23058430092136949 / 576460752303423488) =
      of_int (round_even ((23058430092136949 / 576460752303423488) / 2 powr of_int (- 5 - 52))) * 2 powr of_int (- 5 - 52)"
    using b1 b2 by (rule fl64_binade)
  also have "(23058430092136949 / 576460752303423488) / (2::real) powr of_int (- 5 - 52) = 23058430092136949 / 4"
    unfolding s by simp
  also have "round_even (23058430092136949 / 4) = 5764607523034237"
    by (simp add: round_even_def Let_def)
  finally show ?thesis unfolding x s by simp
qed

lemma decay_6: "decay (1801439850948199 / 36028797018963968) = 5764607523034237 / 144115188075855872"
  unfolding decay_def literal_0_01 decrement_value countdown_6 by (rule refl)

lemma countdown_7: "fl64 (5764607523034237 / 144115188075855872 - 5764607523034235 / 576460752303423488) = 2161727821137839 / 72057594037927936"
proof -
  have x: "(5764607523034237 / 144115188075855872 - 5764607523034235 / 576460752303423488 :: real) = 17293822569102713 / 576460752303423488" by simp
  have s: "(2::real) powr of_int (- 6 - 52) = 1 / 288230376151711744"
    by (simp add: powr_minus powr_numeral)
  have lo: "(2::real) powr of_int (- 6) = 1 / 64" and hi: "(2::real) powr of_int (- 6 + 1) = 1 / 32"
    by (simp_all add: powr_minus powr_numeral)
  have b1: "2 powr of_int (- 6) \<le> \<bar>17293822569102713 / 576460752303423488 :: real\<bar>" unfolding lo by simp
  have b2: "\<bar>17293822569102713 / 576460752303423488 :: real\<bar> < 2 powr of_int (- 6 + 1)" unfolding hi by simp
  have "fl64 (17293822569102713 / 576460752303423488) =
      of_int (round_even ((17293822569102713 / 576460752303423488) / 2 powr of_int (- 6 - 52))) * 2 powr of_int (- 6 - 52)"
    using b1 b2 by (rule fl64_binade)
  also have "(17293822569102713 / 576460752303423488) / (2::real) powr of_int (- 6 - 52) = 17293822569102713 / 2"
    unfolding s by simp
  also have "round_even (17293822569102713 / 2) = 8646911284551356"
    by (simp add: round_even_def Let_def)
  finally show ?thesis unfolding x s by simp
qed

lemma decay_7: "decay (5764607523034237 / 144115188075855872) = 2161727821137839 / 72057594037927936"
  unfolding decay_def literal_0_01 decrement_value countdown_7 by (rule refl)

lemma countdown_8: "fl64 (2161727821137839 / 72057594037927936 - 5764607523034235 / 576460752303423488) = 2882303761517119 / 144115188075855872"
proof -
  have x: "(2161727821137839 / 72057594037927936 - 5764607523034235 / 576460752303423488 :: real) = 11529215046068477 / 576460752303423488" by simp
  have s: "(2::real) powr of_int (- 6 - 52) = 1 / 288230376151711744"
    by (simp add: powr_minus powr_numeral)
  have lo: "(2::real) powr of_int (- 6) = 1 / 64" and hi: "(2::real) powr of_int (- 6 + 1) = 1 / 32"
    by (simp_all add: powr_minus powr_numeral)
  have b1: "2 powr of_int (- 6) \<le> \<bar>11529215046068477 / 576460752303423488 :: real\<bar>" unfolding lo by simp
  have b2: "\<bar>11529215046068477 / 576460752303423488 :: real\<bar> < 2 powr of_int (- 6 + 1)" unfolding hi by simp
  have "fl64 (11529215046068477 / 576460752303423488) =
      of_int (round_even ((11529215046068477 / 576460752303423488) / 2 powr of_int (- 6 - 52))) * 2 powr of_int (- 6 - 52)"
    using b1 b2 by (rule fl64_binade)
  also have "(11529215046068477 / 576460752303423488) / (2::real) powr of_int (- 6 - 52) = 11529215046068477 / 2"
    unfolding s by simp
  also have "round_even (11529215046068477 / 2) = 5764607523034238"
    by (simp add: round_even_def Let_def)
  finally show ?thesis unfolding x s by simp
qed

lemma decay_8: "decay (2161727821137839 / 72057594037927936) = 2882303761517119 / 144115188075855872"
  unfolding decay_def literal_0_01 decrement_value countdown_8 by (rule refl)

lemma countdown_9: "fl64 (2882303761517119 / 144115188075855872 - 5764607523034235 / 576460752303423488) = 5764607523034241 / 576460752303423488"
proof -
  have x: "(2882303761517119 / 144115188075855872 - 5764607523034235 / 576460752303423488 :: real) = 5764607523034241 / 576460752303423488" by simp
  have s: "(2::real) powr of_int (- 7 - 52) = 1 / 576460752303423488"
    by (simp add: powr_minus powr_numeral)
  have lo: "(2::real) powr of_int (- 7) = 1 / 128" and hi: "(2::real) powr of_int (- 7 + 1) = 1 / 64"
    by (simp_all add: powr_minus powr_numeral)
  have b1: "2 powr of_int (- 7) \<le> \<bar>5764607523034241 / 576460752303423488 :: real\<bar>" unfolding lo by simp
  have b2: "\<bar>5764607523034241 / 576460752303423488 :: real\<bar> < 2 powr of_int (- 7 + 1)" unfolding hi by simp
  have "fl64 (5764607523034241 / 576460752303423488) =
      of_int (round_even ((5764607523034241 / 576460752303423488) / 2 powr of_int (- 7 - 52))) * 2 powr of_int (- 7 - 52)"
    using b1 b2 by (rule fl64_binade)
  also have "(5764607523034241 / 576460752303423488) / (2::real) powr of_int (- 7 - 52) = 5764607523034241"
    unfolding s by simp
  also have "round_even (5764607523034241) = 5764607523034241"
    by (simp add: round_even_def Let_def)
  finally show ?thesis unfolding x s by simp
qed

lemma decay_9: "decay (2882303761517119 / 144115188075855872) = 5764607523034241 / 576460752303423488"
  unfolding decay_def literal_0_01 decrement_value countdown_9 by (rule refl)

lemma countdown_10: "fl64 (5764607523034241 / 576460752303423488 - 5764607523034235 / 576460752303423488) = 3 / 288230376151711744"
proof -
  have x: "(5764607523034241 / 576460752303423488 - 5764607523034235 / 576460752303423488 :: real) = 3 / 288230376151711744" by simp
  have s: "(2::real) powr of_int (- 57 - 52) = 1 / 649037107316853453566312041152512"
    by (simp add: powr_minus powr_numeral)
  have lo: "(2::real) powr of_int (- 57) = 1 / 144115188075855872" and hi: "(2::real) powr of_int (- 57 + 1) = 1 / 72057594037927936"
    by (simp_all add: powr_minus powr_numeral)
  have b1: "2 powr of_int (- 57) \<le> \<bar>3 / 288230376151711744 :: real\<bar>" unfolding lo by simp
  have b2: "\<bar>3 / 288230376151711744 :: real\<bar> < 2 powr of_int (- 57 + 1)" unfolding hi by simp
  have "fl64 (3 / 288230376151711744) =
      of_int (round_even ((3 / 288230376151711744) / 2 powr of_int (- 57 - 52))) * 2 powr of_int (- 57 - 52)"
    using b1 b2 by (rule fl64_binade)
  also have "(3 / 288230376151711744) / (2::real) powr of_int (- 57 - 52) = 6755399441055744"
    unfolding s by simp
  also have "round_even (6755399441055744) = 6755399441055744"
    by (simp add: round_even_def Let_def)
  finally show ?thesis unfolding x s by simp
qed

lemma decay_10: "decay (5764607523034241 / 576460752303423488) = 3 / 288230376151711744"
  unfolding decay_def literal_0_01 decrement_value countdown_10 by (rule refl)

lemma countdown_11: "fl64 (3 / 288230376151711744 - 5764607523034235 / 576460752303423488) = - (5764607523034229 / 576460752303423488)"
proof -
  have x: "(3 / 288230376151711744 - 5764607523034235 / 576460752303423488 :: real) = - (5764607523034229 / 576460752303423488)" by simp
  have s: "(2::real) powr of_int (- 7 - 52) = 1 / 576460752303423488"
    by (simp add: powr_minus powr_numeral)
  have lo: "(2::real) powr of_int (- 7) = 1 / 128" and hi: "(2::real) powr of_int (- 7 + 1) = 1 / 64"
    by (simp_all add: powr_minus powr_numeral)
  have b1: "2 powr of_int (- 7) \<le> \<bar>- (5764607523034229 / 576460752303423488) :: real\<bar>" unfolding lo by simp
  have b2: "\<bar>- (5764607523034229 / 576460752303423488) :: real\<bar> < 2 powr of_int (- 7 + 1)" unfolding hi by simp
  have "fl64 (- (5764607523034229 / 576460752303423488)) =
      of_int (round_even ((- (5764607523034229 / 576460752303423488)) / 2 powr of_int (- 7 - 52))) * 2 powr of_int (- 7 - 52)"
    using b1 b2 by (rule fl64_binade)
  also have "(- (5764607523034229 / 576460752303423488)) / (2::real) powr of_int (- 7 - 52) = - 5764607523034229"
    unfolding s by simp
  also have "round_even (- 5764607523034229) = -5764607523034229"
    by (simp add: round_even_def Let_def)
  finally show ?thesis unfolding x s by simp
qed

lemma decay_11: "decay (3 / 288230376151711744) = - (5764607523034229 / 576460752303423488)"
  unfolding decay_def literal_0_01 decrement_value countdown_11 by (rule refl)

text \<open>
  The countdown in doubles, traced: a particle spawned with life \<open>0.1\<close> (the double
  nearest to it) is still active after ten calls, with life \<open>3 / 2\<^sup>5\<^sup>8\<close>, about
  \<open>1.04e-17\<close>; the eleventh call retires it. In exact arithmetic the tenth call would.
\<close>

lemma countdown_from_0_1:
  "p_active ((Particle_update w h 1 ^^ 10) (init x0 y0 vx0 vy0 size0 (3602879701896397 / 36028797018963968) hue0 r1 r2 q)) \<and>
   p_life ((Particle_update w h 1 ^^ 10) (init x0 y0 vx0 vy0 size0 (3602879701896397 / 36028797018963968) hue0 r1 r2 q)) = 3 / 288230376151711744 \<and>
   \<not> p_active ((Particle_update w h 1 ^^ 11) (init x0 y0 vx0 vy0 size0 (3602879701896397 / 36028797018963968) hue0 r1 r2 q)) \<and>
   p_life ((Particle_update w h 1 ^^ 11) (init x0 y0 vx0 vy0 size0 (3602879701896397 / 36028797018963968) hue0 r1 r2 q)) = - (5764607523034229 / 576460752303423488)"
proof -
  define p where "p = init x0 y0 vx0 vy0 size0 (3602879701896397 / 36028797018963968) hue0 r1 r2 q"
  have act: "p_active p" and life: "p_life p = 3602879701896397 / 36028797018963968" by (simp_all add: p_def init_def)
  have i1: "(decay ^^ 1) (3602879701896397 / 36028797018963968) = 6485183463413515 / 72057594037927936"
    by (simp add: eval_nat_numeral decay_1)
  have i2: "(decay ^^ 2) (3602879701896397 / 36028797018963968) = 1441151880758559 / 18014398509481984"
    by (simp add: eval_nat_numeral decay_1 decay_2)
  have i3: "(decay ^^ 3) (3602879701896397 / 36028797018963968) = 5044031582654957 / 72057594037927936"
    by (simp add: eval_nat_numeral decay_1 decay_2 decay_3)
  have i4: "(decay ^^ 4) (3602879701896397 / 36028797018963968) = 8646911284551355 / 144115188075855872"
    by (simp add: eval_nat_numeral decay_1 decay_2 decay_3 decay_4)
  have i5: "(decay ^^ 5) (3602879701896397 / 36028797018963968) = 1801439850948199 / 36028797018963968"
    by (simp add: eval_nat_numeral decay_1 decay_2 decay_3 decay_4 decay_5)
  have i6: "(decay ^^ 6) (3602879701896397 / 36028797018963968) = 5764607523034237 / 144115188075855872"
    by (simp add: eval_nat_numeral decay_1 decay_2 decay_3 decay_4 decay_5 decay_6)
  have i7: "(decay ^^ 7) (3602879701896397 / 36028797018963968) = 2161727821137839 / 72057594037927936"
    by (simp add: eval_nat_numeral decay_1 decay_2 decay_3 decay_4 decay_5 decay_6 decay_7)
  have i8: "(decay ^^ 8) (3602879701896397 / 36028797018963968) = 2882303761517119 / 144115188075855872"
    by (simp add: eval_nat_numeral decay_1 decay_2 decay_3 decay_4 decay_5 decay_6 decay_7 decay_8)
  have i9: "(decay ^^ 9) (3602879701896397 / 36028797018963968) = 5764607523034241 / 576460752303423488"
    by (simp add: eval_nat_numeral decay_1 decay_2 decay_3 decay_4 decay_5 decay_6 decay_7 decay_8 decay_9)
  have i10: "(decay ^^ 10) (3602879701896397 / 36028797018963968) = 3 / 288230376151711744"
    by (simp add: eval_nat_numeral decay_1 decay_2 decay_3 decay_4 decay_5 decay_6 decay_7 decay_8 decay_9 decay_10)
  have i11: "(decay ^^ 11) (3602879701896397 / 36028797018963968) = - (5764607523034229 / 576460752303423488)"
    by (simp add: eval_nat_numeral decay_1 decay_2 decay_3 decay_4 decay_5 decay_6 decay_7 decay_8 decay_9 decay_10 decay_11)
  have alive: "\<forall>j. 0 < j \<and> j \<le> 10 \<longrightarrow> 0 < (decay ^^ j) (p_life p)"
  proof (intro allI impI)
    fix j :: nat assume "0 < j \<and> j \<le> 10"
    then have "j = 1 \<or> j = 2 \<or> j = 3 \<or> j = 4 \<or> j = 5 \<or> j = 6 \<or> j = 7 \<or> j = 8 \<or> j = 9 \<or> j = 10" by arith
    then show "0 < (decay ^^ j) (p_life p)" unfolding life using i1 i2 i3 i4 i5 i6 i7 i8 i9 i10 by auto
  qed
  then have before: "\<forall>j. 0 < j \<and> j < 11 \<longrightarrow> 0 < (decay ^^ j) (p_life p)" by auto
  have dead: "(decay ^^ 11) (p_life p) \<le> 0" unfolding life i11 by simp
  from advance_alive [OF act alive, of w h] advance_last [OF act _ before dead, of w h]
  show ?thesis unfolding p_def [symmetric] life i10 i11 by simp
qed

section \<open>Force terms\<close>

lemma magnetismForce_cases:
  "magnetismForce s p =
     (if p_x p = magnetX (physics s) \<and> p_y p = magnetY (physics s) then Inr None
      else Inr (Some
        ((magnetX (physics s) - p_x p)
            / sqrt ((magnetX (physics s) - p_x p) * (magnetX (physics s) - p_x p)
                    + (magnetY (physics s) - p_y p) * (magnetY (physics s) - p_y p))
            * (magnetismStrength (physics s) * p_mass p
               / ((magnetX (physics s) - p_x p) * (magnetX (physics s) - p_x p)
                  + (magnetY (physics s) - p_y p) * (magnetY (physics s) - p_y p) + 100)),
         (magnetY (physics s) - p_y p)
            / sqrt ((magnetX (physics s) - p_x p) * (magnetX (physics s) - p_x p)
                    + (magnetY (physics s) - p_y p) * (magnetY (physics s) - p_y p))
            * (magnetismStrength (physics s) * p_mass p
               / ((magnetX (physics s) - p_x p) * (magnetX (physics s) - p_x p)
                  + (magnetY (physics s) - p_y p) * (magnetY (physics s) - p_y p) + 100)))))"
proof -
  define dx where "dx = magnetX (physics s) - p_x p"
  define dy where "dy = magnetY (physics s) - p_y p"
  have sq: "0 \<le> dx * dx + dy * dy" by simp
  then have h: "dx * dx + dy * dy + 100 \<noteq> 0" by linarith
  have z: "(dx * dx + dy * dy = 0) = (dx = 0 \<and> dy = 0)" by (simp add: sum_squares_eq_zero_iff)
  have c: "(p_x p = magnetX (physics s) \<and> p_y p = magnetY (physics s)) = (dx = 0 \<and> dy = 0)"
    by (auto simp: dx_def dy_def)
  have "(0 < dx * dx + dy * dy) = (dx * dx + dy * dy \<noteq> 0)"
    using sq by (simp only: less_le) simp
  then have pz: "(0 < dx * dx + dy * dy) = (\<not> (dx = 0 \<and> dy = 0))"
    by (simp only: z)
  show ?thesis
    unfolding magnetismForce_def Let_def dx_def [symmetric] dy_def [symmetric] c
    using h by (auto simp: js_div_def pz)
qed

lemma orbitalForces_cases:
  "orbitalForces s p =
     (if p_x p = orbitalCenterX (physics s) * width s \<and> p_y p = orbitalCenterY (physics s) * height s
      then Inr None
      else Inr (Some
        ((- (p_y p - orbitalCenterY (physics s) * height s)
            / sqrt ((p_x p - orbitalCenterX (physics s) * width s) * (p_x p - orbitalCenterX (physics s) * width s)
                    + (p_y p - orbitalCenterY (physics s) * height s) * (p_y p - orbitalCenterY (physics s) * height s))
            * orbitalStrength (physics s),
          (p_x p - orbitalCenterX (physics s) * width s)
            / sqrt ((p_x p - orbitalCenterX (physics s) * width s) * (p_x p - orbitalCenterX (physics s) * width s)
                    + (p_y p - orbitalCenterY (physics s) * height s) * (p_y p - orbitalCenterY (physics s) * height s))
            * orbitalStrength (physics s)),
         (- (p_x p - orbitalCenterX (physics s) * width s)
            / sqrt ((p_x p - orbitalCenterX (physics s) * width s) * (p_x p - orbitalCenterX (physics s) * width s)
                    + (p_y p - orbitalCenterY (physics s) * height s) * (p_y p - orbitalCenterY (physics s) * height s))
            * 0.01,
          - (p_y p - orbitalCenterY (physics s) * height s)
            / sqrt ((p_x p - orbitalCenterX (physics s) * width s) * (p_x p - orbitalCenterX (physics s) * width s)
                    + (p_y p - orbitalCenterY (physics s) * height s) * (p_y p - orbitalCenterY (physics s) * height s))
            * 0.01))))"
proof -
  define dx where "dx = p_x p - orbitalCenterX (physics s) * width s"
  define dy where "dy = p_y p - orbitalCenterY (physics s) * height s"
  have sq: "0 \<le> dx * dx + dy * dy" by simp
  have z: "(dx * dx + dy * dy = 0) = (dx = 0 \<and> dy = 0)" by (simp add: sum_squares_eq_zero_iff)
  have c: "(p_x p = orbitalCenterX (physics s) * width s \<and> p_y p = orbitalCenterY (physics s) * height s)
             = (dx = 0 \<and> dy = 0)"
    by (auto simp: dx_def dy_def)
  have "(0 < dx * dx + dy * dy) = (dx * dx + dy * dy \<noteq> 0)"
    using sq by (simp only: less_le) simp
  then have pz: "(0 < dx * dx + dy * dy) = (\<not> (dx = 0 \<and> dy = 0))"
    by (simp only: z)
  show ?thesis
    unfolding orbitalForces_def Let_def dx_def [symmetric] dy_def [symmetric] c
    by (auto simp: js_div_def pz)
qed

lemma force_frame:
  "magnetismForce (s\<lparr> spatialHash := hs, activeParticleCount := c \<rparr>) p = magnetismForce s p"
  "orbitalForces (s\<lparr> spatialHash := hs, activeParticleCount := c \<rparr>) p = orbitalForces s p"
  "magnetismForce (s\<lparr> time := t \<rparr>) p = magnetismForce s p"
  "orbitalForces (s\<lparr> time := t \<rparr>) p = orbitalForces s p"
  by (simp_all add: magnetismForce_cases orbitalForces_cases)

section \<open>The frame update\<close>

lemma applyForce_fields:
  "p_active (applyForce fx fy p) = p_active p" "p_life (applyForce fx fy p) = p_life p"
  "p_vx (applyForce fx fy p) = p_vx p" "p_vy (applyForce fx fy p) = p_vy p"
  "p_size (applyForce fx fy p) = p_size p" "p_mass (applyForce fx fy p) = p_mass p"
  "p_x (applyForce fx fy p) = p_x p" "p_y (applyForce fx fy p) = p_y p"
  by (simp_all add: applyForce_def)

lemma applyMagnetism_fields:
  "p_active (applyMagnetism s p) = p_active p" "p_life (applyMagnetism s p) = p_life p"
  "p_vx (applyMagnetism s p) = p_vx p" "p_vy (applyMagnetism s p) = p_vy p"
  "p_size (applyMagnetism s p) = p_size p" "p_mass (applyMagnetism s p) = p_mass p"
  "p_x (applyMagnetism s p) = p_x p" "p_y (applyMagnetism s p) = p_y p"
  by (simp_all add: applyMagnetism_def applyForce_fields split: sum.splits option.splits prod.splits)

lemma applyOrbital_fields:
  "p_active (applyOrbital s p) = p_active p" "p_life (applyOrbital s p) = p_life p"
  "p_vx (applyOrbital s p) = p_vx p" "p_vy (applyOrbital s p) = p_vy p"
  "p_size (applyOrbital s p) = p_size p" "p_mass (applyOrbital s p) = p_mass p"
  "p_x (applyOrbital s p) = p_x p" "p_y (applyOrbital s p) = p_y p"
  by (simp_all add: applyOrbital_def applyForce_fields split: sum.splits option.splits prod.splits)

lemma applyPhysics_fields:
  "p_active (applyPhysics s p) = p_active p" "p_life (applyPhysics s p) = p_life p"
  "p_vx (applyPhysics s p) = p_vx p" "p_vy (applyPhysics s p) = p_vy p"
  "p_size (applyPhysics s p) = p_size p" "p_mass (applyPhysics s p) = p_mass p"
  "p_x (applyPhysics s p) = p_x p" "p_y (applyPhysics s p) = p_y p"
  by (simp_all add: applyPhysics_def applyGravity_def applyTurbulence_def Let_def
      applyForce_fields applyMagnetism_fields applyOrbital_fields)

lemma applyAudio_fields:
  "p_active (applyAudio ab p) = p_active p" "p_life (applyAudio ab p) = p_life p"
  "p_ax (applyAudio ab p) = p_ax p" "p_ay (applyAudio ab p) = p_ay p"
  by (simp_all add: applyAudio_def Let_def split: option.splits)

lemma applyDamping_fields:
  "p_active (applyDamping s p) = p_active p" "p_life (applyDamping s p) = p_life p"
  "p_ax (applyDamping s p) = p_ax p" "p_ay (applyDamping s p) = p_ay p"
  by (simp_all add: applyDamping_def)

lemma handleBoundaries_fields:
  "p_active (handleBoundaries s p) = p_active p" "p_life (handleBoundaries s p) = p_life p"
  by (simp_all add: handleBoundaries_def bounce_def wrap_def Let_def)

lemma stepParticle_life:
  "p_active p \<Longrightarrow> p_life (stepParticle s dt ab p) = fl64 (p_life p - fl64 (fl64 0.01 * dt))"
  "p_active p \<Longrightarrow> p_active (stepParticle s dt ab p) = (0 < fl64 (p_life p - fl64 (fl64 0.01 * dt)))"
  by (simp_all add: stepParticle_def handleBoundaries_fields Particle_update_life
      Particle_update_active applyDamping_fields applyAudio_fields applyPhysics_fields)

lemma stepParticle_decay:
  "p_active p \<Longrightarrow> p_life (stepParticle s 1 ab p) = decay (p_life p)"
  "p_active p \<Longrightarrow> p_active (stepParticle s 1 ab p) = (0 < decay (p_life p))"
  by (simp_all add: stepParticle_life decay_def)

lemma update_loop_pool:
  "fst (update_loop s dt ab ps c h) = map (\<lambda>p. if p_active p then stepParticle s dt ab p else p) ps"
  by (induction ps arbitrary: c h) (simp_all add: Let_def case_prod_unfold)

lemma stepParticle_frame:
  "stepParticle (s\<lparr> spatialHash := hs, activeParticleCount := c \<rparr>) dt ab p = stepParticle s dt ab p"
  by (simp add: stepParticle_def handleBoundaries_def applyDamping_def applyPhysics_def
      applyGravity_def applyMagnetism_def applyTurbulence_def applyOrbital_def force_frame Let_def)

lemma update_pool:
  "particlePool (update dt ab s) =
     map (\<lambda>p. if p_active p then stepParticle (s\<lparr> time := time s + 1 \<rparr>) dt ab p else p) (particlePool s)"
proof -
  have "particlePool (update dt ab s) =
      fst (update_loop (s\<lparr> time := time s + 1, spatialHash := hash_clear (spatialHash s), activeParticleCount := 0 \<rparr>)
             dt ab (particlePool s) 0 (hash_clear (spatialHash s)))"
    by (simp add: update_def Let_def split: prod.splits)
  then show ?thesis
    by (simp only: update_loop_pool stepParticle_frame)
qed

lemma decay_step:
  assumes "1 \<le> l" "l \<le> 200"
  shows "l - 0.02 \<le> decay l" "decay l \<le> l"
proof -
  define u :: real where "u = 1 / 2 ^ 43"
  have u: "0 \<le> u" "u \<le> 1 / 1000" by (simp_all add: u_def)
  have "\<bar>decay l - (l - 0.01)\<bar> \<le> u" unfolding u_def using assms by (intro decay_close) simp_all
  then have "\<bar>decay l - (l - 1 / 100)\<bar> \<le> u" by simp
  with u show "l - 0.02 \<le> decay l" "decay l \<le> l" by simp_all
qed

lemma update_keeps_active:
  assumes "\<forall>p \<in> set (particlePool s). p_active p \<longrightarrow> 1 + (real k + 1) / 50 \<le> p_life p \<and> p_life p \<le> 200"
  shows "map p_active (particlePool (update 1 ab s)) = map p_active (particlePool s)"
    and "\<forall>p \<in> set (particlePool (update 1 ab s)). p_active p \<longrightarrow> 1 + real k / 50 \<le> p_life p \<and> p_life p \<le> 200"
proof -
  have step: "\<And>p. p \<in> set (particlePool s) \<Longrightarrow> p_active p \<Longrightarrow>
      1 + real k / 50 \<le> decay (p_life p) \<and> decay (p_life p) \<le> 200"
  proof -
    fix p assume "p \<in> set (particlePool s)" "p_active p"
    with assms have b: "1 + (real k + 1) / 50 \<le> p_life p" "p_life p \<le> 200" by blast+
    define c where "c = real k / 50"
    have c: "0 \<le> c" by (simp add: c_def)
    have b1: "1 + (c + 1 / 50) \<le> p_life p" using b(1) by (simp add: c_def add_divide_distrib)
    with c have "1 \<le> p_life p" by linarith
    from decay_step [OF this b(2)] have "p_life p - 1 / 50 \<le> decay (p_life p)" "decay (p_life p) \<le> p_life p"
      by simp_all
    with b1 b(2) show "1 + real k / 50 \<le> decay (p_life p) \<and> decay (p_life p) \<le> 200"
      unfolding c_def [symmetric] by linarith
  qed
  then have pos: "\<And>p. p \<in> set (particlePool s) \<Longrightarrow> p_active p \<Longrightarrow> 0 < decay (p_life p)"
  proof -
    fix p assume "p \<in> set (particlePool s)" "p_active p"
    from step [OF this] have "1 + real k / 50 \<le> decay (p_life p)" by simp
    moreover have "0 \<le> real k / 50" by simp
    ultimately show "0 < decay (p_life p)" by linarith
  qed
  show "map p_active (particlePool (update 1 ab s)) = map p_active (particlePool s)"
    unfolding update_pool using pos by (simp add: stepParticle_decay)
  show "\<forall>p \<in> set (particlePool (update 1 ab s)). p_active p \<longrightarrow> 1 + real k / 50 \<le> p_life p \<and> p_life p \<le> 200"
  proof
    fix q assume "q \<in> set (particlePool (update 1 ab s))"
    then obtain p where p: "p \<in> set (particlePool s)"
      and q: "q = (if p_active p then stepParticle (s\<lparr> time := time s + 1 \<rparr>) 1 ab p else p)"
      unfolding update_pool by auto
    show "p_active q \<longrightarrow> 1 + real k / 50 \<le> p_life q \<and> p_life q \<le> 200"
    proof (cases "p_active p")
      case True
      with step [OF p] q show ?thesis by (simp add: stepParticle_decay)
    next
      case False
      with q show ?thesis by simp
    qed
  qed
qed

lemma updates_keep_active:
  "\<forall>p \<in> set (particlePool s). p_active p \<longrightarrow> 1 + real k / 50 \<le> p_life p \<and> p_life p \<le> 200 \<Longrightarrow>
     map p_active (particlePool (updates k 1 ab s)) = map p_active (particlePool s)"
proof (induction k arbitrary: s)
  case 0
  show ?case by simp
next
  case (Suc k)
  then have h: "\<forall>p \<in> set (particlePool s). p_active p \<longrightarrow> 1 + (real k + 1) / 50 \<le> p_life p \<and> p_life p \<le> 200"
    by (simp add: add.commute)
  from update_keeps_active [OF h, of ab] Suc.IH [of "update 1 ab s"]
  show ?case by simp
qed

lemma active_count_cong:
  "map p_active xs = map p_active ys \<Longrightarrow> length (filter p_active xs) = length (filter p_active ys)"
proof (induction xs arbitrary: ys)
  case Nil
  then show ?case by simp
next
  case (Cons x xs)
  then obtain y ys' where ys: "ys = y # ys'" and hd: "p_active x = p_active y"
    and tl: "map p_active xs = map p_active ys'"
    by (auto simp: Cons_eq_map_conv)
  from Cons.IH [OF tl] hd show ?case unfolding ys by simp
qed

lemma filter_update_count:
  "i < length xs \<Longrightarrow> \<not> P (xs ! i) \<Longrightarrow> P y \<Longrightarrow>
     length (filter P (xs[i := y])) = Suc (length (filter P xs))"
proof (induction xs arbitrary: i)
  case Nil
  then show ?case by simp
next
  case (Cons x xs)
  then show ?case by (cases i) simp_all
qed

lemma emit_loop_count:
  "length (getActiveParticles (emit_loop n e rnd k s)) =
     min (length (getActiveParticles s) + n) (length (particlePool s))"
proof (induction n arbitrary: s k)
  case 0
  have "length (filter p_active (particlePool s)) \<le> length (particlePool s)" by simp
  then show ?case by (simp add: getActiveParticles_def)
next
  case (Suc n)
  show ?case
  proof (cases "getParticle s")
    case None
    then have "\<forall>p \<in> set (particlePool s). p_active p"
      by (simp add: getParticle_def firstInactive_None)
    then have "filter p_active (particlePool s) = particlePool s" by simp
    with None show ?thesis by (simp add: getActiveParticles_def)
  next
    case (Some j)
    then have j: "j < length (particlePool s)" "\<not> p_active (particlePool s ! j)"
      using firstInactive_Some [of "particlePool s" j] by (simp_all add: getParticle_def)
    define s' where "s' = s\<lparr> particlePool := (particlePool s)[j := spawn s e rnd k (particlePool s ! j)] \<rparr>"
    have step: "emit_loop (Suc n) e rnd k s = emit_loop n e rnd (k + 9) s'"
      using Some by (simp add: s'_def)
    have cnt: "length (getActiveParticles s') = Suc (length (getActiveParticles s))"
      using j by (simp add: s'_def getActiveParticles_def filter_update_count spawn_fields)
    have len: "length (particlePool s') = length (particlePool s)" by (simp add: s'_def)
    show ?thesis unfolding step Suc.IH [of "k + 9" s'] cnt len by simp
  qed
qed

lemma emit_loop_life:
  assumes "\<forall>p \<in> set (particlePool s). p_active p \<longrightarrow> Q (p_life p)"
    and "\<forall>r. Q (e_lifeMin (emission s) + rnd r * (e_lifeMax (emission s) - e_lifeMin (emission s)))"
  shows "\<forall>p \<in> set (particlePool (emit_loop n e rnd k s)). p_active p \<longrightarrow> Q (p_life p)"
  using assms
proof (induction n arbitrary: s k)
  case 0
  then show ?case by simp
next
  case (Suc n)
  show ?case
  proof (cases "getParticle s")
    case None
    with Suc.prems show ?thesis by simp
  next
    case (Some j)
    define s' where "s' = s\<lparr> particlePool := (particlePool s)[j := spawn s e rnd k (particlePool s ! j)] \<rparr>"
    have step: "emit_loop (Suc n) e rnd k s = emit_loop n e rnd (k + 9) s'"
      using Some by (simp add: s'_def)
    have em: "emission s' = emission s" by (simp add: s'_def)
    have "set (particlePool s') \<subseteq> insert (spawn s e rnd k (particlePool s ! j)) (set (particlePool s))"
      unfolding s'_def by (simp add: set_update_subset_insert)
    moreover have "Q (p_life (spawn s e rnd k (particlePool s ! j)))"
      using Suc.prems(2) by (simp add: spawn_fields)
    ultimately have 1: "\<forall>p \<in> set (particlePool s'). p_active p \<longrightarrow> Q (p_life p)"
      using Suc.prems(1) by auto
    from Suc.IH [OF 1, of "k + 9"] Suc.prems(2) show ?thesis
      unfolding step em by simp
  qed
qed

text \<open>
  Claim C3, evaluated on the code. On an engine of capacity 10 with the default
  configuration, \<^verbatim>\<open>emit(5, 0)\<close> activates exactly five particles, whatever values in
  \<open>[0, 1]\<close> \<^verbatim>\<open>Math.random()\<close> returns. Each is born with life between \<open>100\<close> and \<open>200\<close>
  and loses about \<open>0.01\<close> per frame, so after 250 calls \<^verbatim>\<open>update(1, null)\<close> all five are
  still active: none has been retired.
\<close>

theorem end_to_end_scenario:
  assumes "\<forall>i. 0 \<le> rnd i \<and> rnd i \<le> 1"
  shows "length (getActiveParticles (emit 5 0 rnd (new_ParticleSystem 10))) = 5 \<and>
         length (getActiveParticles (updates 250 1 None (emit 5 0 rnd (new_ParticleSystem 10)))) = 5"
proof -
  let ?s = "emit 5 0 rnd (new_ParticleSystem 10)"
  let ?Q = "\<lambda>l::real. 100 \<le> l \<and> l \<le> 200"
  have n5: "nat \<lfloor>(5::real) * (1 + 0 * emissionMultiplier (audioReactive (new_ParticleSystem 10)))\<rfloor> = 5"
    by simp
  have five: "length (getActiveParticles ?s) = 5"
    unfolding emit_def Let_def n5 emit_loop_count
    by (simp add: getActiveParticles_def new_ParticleSystem_def new_Particle_def)
  have fresh: "\<forall>p \<in> set (particlePool (new_ParticleSystem 10)). p_active p \<longrightarrow> ?Q (p_life p)"
    by (simp add: new_ParticleSystem_def new_Particle_def)
  have born: "\<forall>r. ?Q (e_lifeMin (emission (new_ParticleSystem 10))
      + rnd r * (e_lifeMax (emission (new_ParticleSystem 10)) - e_lifeMin (emission (new_ParticleSystem 10))))"
  proof
    fix r
    have "0 \<le> rnd r * 100" "rnd r * 100 \<le> 100" using assms by simp_all
    then show "?Q (e_lifeMin (emission (new_ParticleSystem 10))
      + rnd r * (e_lifeMax (emission (new_ParticleSystem 10)) - e_lifeMin (emission (new_ParticleSystem 10))))"
      by (simp add: new_ParticleSystem_def)
  qed
  have range: "\<forall>p \<in> set (particlePool ?s). p_active p \<longrightarrow> ?Q (p_life p)"
    unfolding emit_def Let_def by (rule emit_loop_life [of _ ?Q, OF fresh born])
  then have life: "\<forall>p \<in> set (particlePool ?s). p_active p \<longrightarrow>
      1 + real (250::nat) / 50 \<le> p_life p \<and> p_life p \<le> 200"
    by auto
  from updates_keep_active [OF life, of None]
  have still: "length (getActiveParticles (updates 250 1 None ?s)) = length (getActiveParticles ?s)"
    unfolding getActiveParticles_def by (rule active_count_cong)
  from five still show ?thesis by simp
qed

theorem end_to_end_scenario_witness:
  "length (getActiveParticles (updates 250 1 None (emit 5 0 (\<lambda>_. 0) (new_ParticleSystem 10)))) = 5"
proof -
  have h: "\<forall>i. (0::real) \<le> (\<lambda>_. 0) i \<and> (\<lambda>_. 0::real) i \<le> 1" by simp
  from end_to_end_scenario [OF h] show ?thesis by simp
qed

lemma stepParticle_gravity_vy:
  assumes "mode (physics s) = ''gravity''" "\<not> bounceEnabled (physics s)"
    "audioBands = None \<or> (\<exists>bands. audioBands = Some bands \<and> length bands \<noteq> 7)"
    "p_active p" "p_vy p = 0" "p_ay p = 0"
  shows "p_vy (stepParticle s 1 audioBands p) = gravityY (physics s) / p_mass p"
proof -
  have au: "\<And>q. applyAudio audioBands q = q"
    using assms(3) by (auto simp: applyAudio_def)
  have ph: "applyPhysics s p = applyForce (gravityX (physics s)) (gravityY (physics s)) p"
    using assms(1) by (simp add: applyPhysics_def applyGravity_def)
  show ?thesis
    unfolding stepParticle_def au ph using assms(2,4,5,6)
    by (simp add: handleBoundaries_def wrap_def applyDamping_def Particle_update_def applyForce_def Let_def)
qed

text \<open>
  Claim C4, as the code has it. In gravity mode, with the bounce policy off and no audio
  vector of seven entries, one frame with \<open>deltaTime = 1\<close> gives every active particle
  that is at rest (zero velocity, empty acceleration accumulator, non-zero mass) the
  vertical velocity \<open>gravityY / mass\<close>: the force is divided by the mass, which
  \<^verbatim>\<open>init\<close> sets to \<open>0.1 * size\<close>. The value is the same wherever the particle is put.
\<close>

theorem gravity_rest_velocity:
  assumes "mode (physics s) = ''gravity''" "\<not> bounceEnabled (physics s)"
    "audioBands = None \<or> (\<exists>bands. audioBands = Some bands \<and> length bands \<noteq> 7)"
    "i < length (particlePool s)" "p_active (particlePool s ! i)"
    "p_vx (particlePool s ! i) = 0" "p_vy (particlePool s ! i) = 0"
    "p_ax (particlePool s ! i) = 0" "p_ay (particlePool s ! i) = 0"
    "p_mass (particlePool s ! i) \<noteq> 0"
  shows "p_vy (particlePool (update 1 audioBands s) ! i)
           = gravityY (physics s) / p_mass (particlePool s ! i) \<and>
         p_vy (particlePool (update 1 audioBands
                 (s\<lparr> particlePool := (particlePool s)[i := (particlePool s ! i)\<lparr> p_x := a, p_y := b \<rparr>] \<rparr>)) ! i)
           = gravityY (physics s) / p_mass (particlePool s ! i)"
proof -
  let ?s1 = "s\<lparr> time := time s + 1 \<rparr>"
  have 1: "p_vy (particlePool (update 1 audioBands s) ! i) = gravityY (physics s) / p_mass (particlePool s ! i)"
    using assms stepParticle_gravity_vy [of ?s1 audioBands "particlePool s ! i"]
    by (simp add: update_pool)
  let ?q = "(particlePool s ! i)\<lparr> p_x := a, p_y := b \<rparr>"
  let ?t = "s\<lparr> particlePool := (particlePool s)[i := ?q] \<rparr>"
  have 2: "p_vy (particlePool (update 1 audioBands ?t) ! i) = gravityY (physics s) / p_mass (particlePool s ! i)"
    using assms stepParticle_gravity_vy [of "?t\<lparr> time := time ?t + 1 \<rparr>" audioBands ?q]
    by (simp add: update_pool)
  from 1 2 show ?thesis by (rule conjI)
qed

theorem gravity_rest_velocity_witness:
  "p_vy (particlePool (update 1 None one_at_rest) ! 0) = 0.1 / 0.2"
  using gravity_rest_velocity [of one_at_rest None 0 0 0]
  by (simp add: one_at_rest_def new_ParticleSystem_def init_def new_Particle_def)

text \<open>
  The claim as stated (\<open>vy \<approx> 0.1\<close>) fails: a particle spawned at rest with size \<open>2\<close> has
  mass \<open>0.2\<close>, and one frame of gravity \<open>0.1\<close> leaves it with \<open>vy = 0.5\<close>.
\<close>

theorem gravity_rest_velocity_counterexample:
  "p_vy (particlePool (update 1 None one_at_rest) ! 0) = 0.5 \<and>
   \<not> \<bar>p_vy (particlePool (update 1 None one_at_rest) ! 0) - 0.1\<bar> \<le> 0.05"
proof -
  have "p_vy (particlePool (update 1 None one_at_rest) ! 0) = 0.5"
    by (simp add: update_pool one_at_rest_def init_def new_Particle_def new_ParticleSystem_def
        stepParticle_def applyPhysics_def applyGravity_def applyForce_def applyAudio_def
        applyDamping_def Particle_update_def handleBoundaries_def wrap_def Let_def)
  then show ?thesis by simp
qed

lemma time_frame:
  "handleBoundaries (s\<lparr> time := t \<rparr>) q = handleBoundaries s q"
  "applyDamping (s\<lparr> time := t \<rparr>) q = applyDamping s q"
  "applyGravity (s\<lparr> time := t \<rparr>) q = applyGravity s q"
  "applyMagnetism (s\<lparr> time := t \<rparr>) q = applyMagnetism s q"
  "applyOrbital (s\<lparr> time := t \<rparr>) q = applyOrbital s q"
  by (simp_all add: handleBoundaries_def applyDamping_def applyGravity_def applyMagnetism_def
      applyOrbital_def force_frame)

lemma update_slot:
  "i < length (particlePool s) \<Longrightarrow> p_active (particlePool s ! i) \<Longrightarrow>
     particlePool (update dt ab s) ! i =
       handleBoundaries s (Particle_update (width s) (height s) dt
         (applyDamping s (applyAudio ab (applyPhysics (s\<lparr> time := time s + 1 \<rparr>) (particlePool s ! i)))))"
  by (simp add: update_pool stepParticle_def time_frame)

lemma update_slot_inactive:
  "i < length (particlePool s) \<Longrightarrow> \<not> p_active (particlePool s ! i) \<Longrightarrow>
     particlePool (update dt ab s) ! i = particlePool s ! i"
  by (simp add: update_pool)

lemma size_kept:
  "p_size (handleBoundaries s q) = p_size q" "p_size (applyDamping s q) = p_size q"
  "p_size (Particle_update w h dt q) = p_size q"
  by (simp_all add: handleBoundaries_def bounce_def wrap_def applyDamping_def Particle_update_def Let_def)

section \<open>Guards of the force fields\<close>

text \<open>
  Claim C7. For a particle that sits exactly on the magnetism target, or exactly on the
  orbital centre, the guard \<^verbatim>\<open>dist > 0\<close> skips the force term: no force pair is computed,
  no division is evaluated, and the particle is returned unchanged. The same holds for the
  mode dispatch when that mode is active, and in \<^verbatim>\<open>update\<close> the frame of such a particle
  is the frame without mode force: audio adjustments, damping, integration, boundary
  policy. At any position the divisions of both force terms have a non-zero divisor.
\<close>

theorem zero_distance_guard:
  "(p_x p = magnetX (physics s) \<and> p_y p = magnetY (physics s) \<longrightarrow>
      magnetismForce s p = Inr None \<and> applyMagnetism s p = p) \<and>
   (p_x p = orbitalCenterX (physics s) * width s \<and> p_y p = orbitalCenterY (physics s) * height s \<longrightarrow>
      orbitalForces s p = Inr None \<and> applyOrbital s p = p) \<and>
   (mode (physics s) = ''magnetism'' \<and> p_x p = magnetX (physics s) \<and> p_y p = magnetY (physics s) \<longrightarrow>
      applyPhysics s p = p) \<and>
   (mode (physics s) = ''orbital'' \<and> p_x p = orbitalCenterX (physics s) * width s \<and>
      p_y p = orbitalCenterY (physics s) * height s \<longrightarrow> applyPhysics s p = p) \<and>
   magnetismForce s p \<noteq> Inl DivisionByZero \<and>
   orbitalForces s p \<noteq> Inl DivisionByZero \<and>
   (i < length (particlePool s) \<and> p_active (particlePool s ! i) \<and>
    (mode (physics s) = ''magnetism'' \<and> p_x (particlePool s ! i) = magnetX (physics s) \<and>
       p_y (particlePool s ! i) = magnetY (physics s) \<or>
     mode (physics s) = ''orbital'' \<and> p_x (particlePool s ! i) = orbitalCenterX (physics s) * width s \<and>
       p_y (particlePool s ! i) = orbitalCenterY (physics s) * height s) \<longrightarrow>
      particlePool (update dt ab s) ! i =
        handleBoundaries s (Particle_update (width s) (height s) dt
          (applyDamping s (applyAudio ab (particlePool s ! i)))))"
proof -
  have m: "p_x p = magnetX (physics s) \<and> p_y p = magnetY (physics s) \<longrightarrow>
      magnetismForce s p = Inr None \<and> applyMagnetism s p = p"
    by (simp add: applyMagnetism_def magnetismForce_cases)
  have ob: "p_x p = orbitalCenterX (physics s) * width s \<and> p_y p = orbitalCenterY (physics s) * height s \<longrightarrow>
      orbitalForces s p = Inr None \<and> applyOrbital s p = p"
    by (simp add: applyOrbital_def orbitalForces_cases)
  have pm: "mode (physics s) = ''magnetism'' \<and> p_x p = magnetX (physics s) \<and> p_y p = magnetY (physics s) \<longrightarrow>
      applyPhysics s p = p"
    using m by (simp add: applyPhysics_def)
  have po: "mode (physics s) = ''orbital'' \<and> p_x p = orbitalCenterX (physics s) * width s \<and>
      p_y p = orbitalCenterY (physics s) * height s \<longrightarrow> applyPhysics s p = p"
    using ob by (simp add: applyPhysics_def)
  have t: "magnetismForce s p \<noteq> Inl DivisionByZero" "orbitalForces s p \<noteq> Inl DivisionByZero"
    by (simp_all add: magnetismForce_cases orbitalForces_cases)
  have u: "i < length (particlePool s) \<and> p_active (particlePool s ! i) \<and>
    (mode (physics s) = ''magnetism'' \<and> p_x (particlePool s ! i) = magnetX (physics s) \<and>
       p_y (particlePool s ! i) = magnetY (physics s) \<or>
     mode (physics s) = ''orbital'' \<and> p_x (particlePool s ! i) = orbitalCenterX (physics s) * width s \<and>
       p_y (particlePool s ! i) = orbitalCenterY (physics s) * height s) \<longrightarrow>
      particlePool (update dt ab s) ! i =
        handleBoundaries s (Particle_update (width s) (height s) dt
          (applyDamping s (applyAudio ab (particlePool s ! i))))"
  proof
    assume h: "i < length (particlePool s) \<and> p_active (particlePool s ! i) \<and>
      (mode (physics s) = ''magnetism'' \<and> p_x (particlePool s ! i) = magnetX (physics s) \<and>
         p_y (particlePool s ! i) = magnetY (physics s) \<or>
       mode (physics s) = ''orbital'' \<and> p_x (particlePool s ! i) = orbitalCenterX (physics s) * width s \<and>
         p_y (particlePool s ! i) = orbitalCenterY (physics s) * height s)"
    then have "applyPhysics (s\<lparr> time := time s + 1 \<rparr>) (particlePool s ! i) = particlePool s ! i"
      by (auto simp: applyPhysics_def time_frame applyMagnetism_def applyOrbital_def
          magnetismForce_cases orbitalForces_cases)
    with h show "particlePool (update dt ab s) ! i =
        handleBoundaries s (Particle_update (width s) (height s) dt
          (applyDamping s (applyAudio ab (particlePool s ! i))))"
      by (simp add: update_slot)
  qed
  from m ob pm po t u show ?thesis by (intro conjI)
qed

theorem zero_distance_guard_witness:
  "magnetismForce (new_ParticleSystem 1) new_Particle = Inr None \<and>
   applyMagnetism (new_ParticleSystem 1) new_Particle = new_Particle \<and>
   orbitalForces (new_ParticleSystem 1) (new_Particle\<lparr> p_x := 960, p_y := 540 \<rparr>) = Inr None \<and>
   applyPhysics (setPhysicsMode ''orbital'' (new_ParticleSystem 1)) (new_Particle\<lparr> p_x := 960, p_y := 540 \<rparr>)
     = new_Particle\<lparr> p_x := 960, p_y := 540 \<rparr> \<and>
   p_vx (particlePool (update 1 None (setPhysicsMode ''orbital'' one_at_rest)) ! 0) = 0 \<and>
   p_vy (particlePool (update 1 None (setPhysicsMode ''orbital'' one_at_rest)) ! 0) = 0 \<and>
   p_x (particlePool (update 1 None (setPhysicsMode ''orbital'' one_at_rest)) ! 0) = 960"
proof -
  have d: "0 < length (particlePool (setPhysicsMode ''orbital'' one_at_rest)) \<and>
      p_active (particlePool (setPhysicsMode ''orbital'' one_at_rest) ! 0) \<and>
      (mode (physics (setPhysicsMode ''orbital'' one_at_rest)) = ''magnetism'' \<and>
         p_x (particlePool (setPhysicsMode ''orbital'' one_at_rest) ! 0)
           = magnetX (physics (setPhysicsMode ''orbital'' one_at_rest)) \<and>
         p_y (particlePool (setPhysicsMode ''orbital'' one_at_rest) ! 0)
           = magnetY (physics (setPhysicsMode ''orbital'' one_at_rest)) \<or>
       mode (physics (setPhysicsMode ''orbital'' one_at_rest)) = ''orbital'' \<and>
         p_x (particlePool (setPhysicsMode ''orbital'' one_at_rest) ! 0)
           = orbitalCenterX (physics (setPhysicsMode ''orbital'' one_at_rest))
               * width (setPhysicsMode ''orbital'' one_at_rest) \<and>
         p_y (particlePool (setPhysicsMode ''orbital'' one_at_rest) ! 0)
           = orbitalCenterY (physics (setPhysicsMode ''orbital'' one_at_rest))
               * height (setPhysicsMode ''orbital'' one_at_rest))"
    by (simp add: one_at_rest_def new_ParticleSystem_def setPhysicsMode_def validModes_def init_def)
  note up = zero_distance_guard [of new_Particle "setPhysicsMode ''orbital'' one_at_rest" 0 1 None,
      THEN conjunct2, THEN conjunct2, THEN conjunct2, THEN conjunct2, THEN conjunct2, THEN conjunct2,
      THEN mp, OF d]
  have frame: "p_vx (particlePool (update 1 None (setPhysicsMode ''orbital'' one_at_rest)) ! 0) = 0 \<and>
      p_vy (particlePool (update 1 None (setPhysicsMode ''orbital'' one_at_rest)) ! 0) = 0 \<and>
      p_x (particlePool (update 1 None (setPhysicsMode ''orbital'' one_at_rest)) ! 0) = 960"
    unfolding up
    by (simp add: one_at_rest_def new_ParticleSystem_def setPhysicsMode_def validModes_def init_def
        new_Particle_def applyAudio_def applyDamping_def Particle_update_def handleBoundaries_def
        wrap_def Let_def)
  have a: "p_x new_Particle = magnetX (physics (new_ParticleSystem 1)) \<and>
           p_y new_Particle = magnetY (physics (new_ParticleSystem 1))"
    by (simp add: new_Particle_def new_ParticleSystem_def)
  have b: "p_x (new_Particle\<lparr> p_x := 960, p_y := 540 \<rparr>)
             = orbitalCenterX (physics (new_ParticleSystem 1)) * width (new_ParticleSystem 1) \<and>
           p_y (new_Particle\<lparr> p_x := 960, p_y := 540 \<rparr>)
             = orbitalCenterY (physics (new_ParticleSystem 1)) * height (new_ParticleSystem 1)"
    by (simp add: new_ParticleSystem_def)
  have c: "mode (physics (setPhysicsMode ''orbital'' (new_ParticleSystem 1))) = ''orbital'' \<and>
           p_x (new_Particle\<lparr> p_x := 960, p_y := 540 \<rparr>)
             = orbitalCenterX (physics (setPhysicsMode ''orbital'' (new_ParticleSystem 1)))
                 * width (setPhysicsMode ''orbital'' (new_ParticleSystem 1)) \<and>
           p_y (new_Particle\<lparr> p_x := 960, p_y := 540 \<rparr>)
             = orbitalCenterY (physics (setPhysicsMode ''orbital'' (new_ParticleSystem 1)))
                 * height (setPhysicsMode ''orbital'' (new_ParticleSystem 1))"
    by (simp add: new_ParticleSystem_def setPhysicsMode_def validModes_def)
  note m = zero_distance_guard [of new_Particle "new_ParticleSystem 1" 0 1 None,
      THEN conjunct1, THEN mp, OF a]
  note ob = zero_distance_guard [of "new_Particle\<lparr> p_x := 960, p_y := 540 \<rparr>" "new_ParticleSystem 1" 0 1 None,
      THEN conjunct2, THEN conjunct1, THEN mp, OF b]
  note po = zero_distance_guard [of "new_Particle\<lparr> p_x := 960, p_y := 540 \<rparr>"
      "setPhysicsMode ''orbital'' (new_ParticleSystem 1)" 0 1 None,
      THEN conjunct2, THEN conjunct2, THEN conjunct2, THEN conjunct1, THEN mp, OF c]
  from m ob [THEN conjunct1] po frame show ?thesis by simp
qed

section \<open>Audio coupling\<close>

lemma update_loop_wrong_length:
  "length bands \<noteq> 7 \<Longrightarrow> update_loop s dt (Some bands) ps c h = update_loop s dt None ps c h"
  by (induction ps arbitrary: c h) (simp_all add: stepParticle_def applyAudio_def)

text \<open>
  Claim C8. In \<^verbatim>\<open>update\<close>, for every active slot: with an audio vector of exactly seven
  entries the frame is the mode force, then \<open>vy + 0.5 * bands[1]\<close>,
  \<open>vx + 0.3 * (bands[5] - 0.5)\<close> and \<open>size * (1 + 0.2 * bands[3])\<close>, then damping,
  integration and boundary policy, and the slot ends with that scaled size. With a vector
  of any other length, or with \<^verbatim>\<open>null\<close>, the frame is mode force, damping, integration and
  boundary policy, the size is unchanged, and the whole \<^verbatim>\<open>update\<close> equals the one with
  \<^verbatim>\<open>null\<close>. In gravity mode without the bounce policy the resulting velocity is written
  out: the audio terms enter before damping, the gravity term in both cases.
\<close>

theorem audio_vector_guard:
  assumes "i < length (particlePool s)" "p_active (particlePool s ! i)"
  shows
   "(length bands = 7 \<longrightarrow>
       particlePool (update dt (Some bands) s) ! i =
         handleBoundaries s (Particle_update (width s) (height s) dt (applyDamping s
           ((applyPhysics (s\<lparr> time := time s + 1 \<rparr>) (particlePool s ! i))
              \<lparr> p_vy := p_vy (particlePool s ! i) + bands ! 1 * 0.5,
                p_vx := p_vx (particlePool s ! i) + (bands ! 5 - 0.5) * 0.3,
                p_size := p_size (particlePool s ! i) * (1 + bands ! 3 * 0.2) \<rparr>))) \<and>
       p_size (particlePool (update dt (Some bands) s) ! i)
         = p_size (particlePool s ! i) * (1 + bands ! 3 * 0.2)) \<and>
    (length bands \<noteq> 7 \<longrightarrow>
       particlePool (update dt (Some bands) s) ! i =
         handleBoundaries s (Particle_update (width s) (height s) dt (applyDamping s
           (applyPhysics (s\<lparr> time := time s + 1 \<rparr>) (particlePool s ! i)))) \<and>
       p_size (particlePool (update dt (Some bands) s) ! i) = p_size (particlePool s ! i) \<and>
       update dt (Some bands) s = update dt None s) \<and>
    particlePool (update dt None s) ! i =
      handleBoundaries s (Particle_update (width s) (height s) dt (applyDamping s
        (applyPhysics (s\<lparr> time := time s + 1 \<rparr>) (particlePool s ! i)))) \<and>
    p_size (particlePool (update dt None s) ! i) = p_size (particlePool s ! i) \<and>
    (mode (physics s) = ''gravity'' \<and> \<not> bounceEnabled (physics s) \<and> p_mass (particlePool s ! i) \<noteq> 0 \<longrightarrow>
       (length bands = 7 \<longrightarrow>
          p_vy (particlePool (update dt (Some bands) s) ! i) =
            (p_vy (particlePool s ! i) + bands ! 1 * 0.5) * damping (physics s)
              + (p_ay (particlePool s ! i) + gravityY (physics s) / p_mass (particlePool s ! i)) * dt \<and>
          p_vx (particlePool (update dt (Some bands) s) ! i) =
            (p_vx (particlePool s ! i) + (bands ! 5 - 0.5) * 0.3) * damping (physics s)
              + (p_ax (particlePool s ! i) + gravityX (physics s) / p_mass (particlePool s ! i)) * dt) \<and>
       (length bands \<noteq> 7 \<longrightarrow>
          p_vy (particlePool (update dt (Some bands) s) ! i) =
            p_vy (particlePool s ! i) * damping (physics s)
              + (p_ay (particlePool s ! i) + gravityY (physics s) / p_mass (particlePool s ! i)) * dt \<and>
          p_vx (particlePool (update dt (Some bands) s) ! i) =
            p_vx (particlePool s ! i) * damping (physics s)
              + (p_ax (particlePool s ! i) + gravityX (physics s) / p_mass (particlePool s ! i)) * dt))"
proof -
  let ?p = "particlePool s ! i"
  let ?s1 = "s\<lparr> time := time s + 1 \<rparr>"
  note slot = update_slot [OF assms]
  have seven: "length bands = 7 \<Longrightarrow> applyAudio (Some bands) (applyPhysics ?s1 ?p) =
      (applyPhysics ?s1 ?p)\<lparr> p_vy := p_vy ?p + bands ! 1 * 0.5, p_vx := p_vx ?p + (bands ! 5 - 0.5) * 0.3,
         p_size := p_size ?p * (1 + bands ! 3 * 0.2) \<rparr>"
    by (simp add: applyAudio_def Let_def applyPhysics_fields)
  have other: "length bands \<noteq> 7 \<Longrightarrow> applyAudio (Some bands) (applyPhysics ?s1 ?p) = applyPhysics ?s1 ?p"
    by (simp add: applyAudio_def)
  have none: "applyAudio None (applyPhysics ?s1 ?p) = applyPhysics ?s1 ?p"
    by (simp add: applyAudio_def)
  have A: "length bands = 7 \<longrightarrow>
       particlePool (update dt (Some bands) s) ! i =
         handleBoundaries s (Particle_update (width s) (height s) dt (applyDamping s
           ((applyPhysics ?s1 ?p)\<lparr> p_vy := p_vy ?p + bands ! 1 * 0.5, p_vx := p_vx ?p + (bands ! 5 - 0.5) * 0.3,
              p_size := p_size ?p * (1 + bands ! 3 * 0.2) \<rparr>))) \<and>
       p_size (particlePool (update dt (Some bands) s) ! i) = p_size ?p * (1 + bands ! 3 * 0.2)"
  proof (intro impI)
    assume l: "length bands = 7"
    show "particlePool (update dt (Some bands) s) ! i =
         handleBoundaries s (Particle_update (width s) (height s) dt (applyDamping s
           ((applyPhysics ?s1 ?p)\<lparr> p_vy := p_vy ?p + bands ! 1 * 0.5, p_vx := p_vx ?p + (bands ! 5 - 0.5) * 0.3,
              p_size := p_size ?p * (1 + bands ! 3 * 0.2) \<rparr>))) \<and>
       p_size (particlePool (update dt (Some bands) s) ! i) = p_size ?p * (1 + bands ! 3 * 0.2)"
      unfolding slot seven [OF l] by (simp add: size_kept)
  qed
  have B: "length bands \<noteq> 7 \<longrightarrow>
       particlePool (update dt (Some bands) s) ! i =
         handleBoundaries s (Particle_update (width s) (height s) dt (applyDamping s (applyPhysics ?s1 ?p))) \<and>
       p_size (particlePool (update dt (Some bands) s) ! i) = p_size ?p \<and>
       update dt (Some bands) s = update dt None s"
  proof (intro impI)
    assume l: "length bands \<noteq> 7"
    have "update dt (Some bands) s = update dt None s"
      using l by (simp add: update_def update_loop_wrong_length)
    then show "particlePool (update dt (Some bands) s) ! i =
         handleBoundaries s (Particle_update (width s) (height s) dt (applyDamping s (applyPhysics ?s1 ?p))) \<and>
       p_size (particlePool (update dt (Some bands) s) ! i) = p_size ?p \<and>
       update dt (Some bands) s = update dt None s"
      unfolding slot other [OF l] by (simp add: size_kept applyPhysics_fields)
  qed
  have C: "particlePool (update dt None s) ! i =
      handleBoundaries s (Particle_update (width s) (height s) dt (applyDamping s (applyPhysics ?s1 ?p)))"
    "p_size (particlePool (update dt None s) ! i) = p_size ?p"
    unfolding slot none by (simp_all add: size_kept applyPhysics_fields)
  have D: "mode (physics s) = ''gravity'' \<and> \<not> bounceEnabled (physics s) \<and> p_mass ?p \<noteq> 0 \<longrightarrow>
       (length bands = 7 \<longrightarrow>
          p_vy (particlePool (update dt (Some bands) s) ! i) =
            (p_vy ?p + bands ! 1 * 0.5) * damping (physics s) + (p_ay ?p + gravityY (physics s) / p_mass ?p) * dt \<and>
          p_vx (particlePool (update dt (Some bands) s) ! i) =
            (p_vx ?p + (bands ! 5 - 0.5) * 0.3) * damping (physics s) + (p_ax ?p + gravityX (physics s) / p_mass ?p) * dt) \<and>
       (length bands \<noteq> 7 \<longrightarrow>
          p_vy (particlePool (update dt (Some bands) s) ! i) =
            p_vy ?p * damping (physics s) + (p_ay ?p + gravityY (physics s) / p_mass ?p) * dt \<and>
          p_vx (particlePool (update dt (Some bands) s) ! i) =
            p_vx ?p * damping (physics s) + (p_ax ?p + gravityX (physics s) / p_mass ?p) * dt)"
  proof (intro impI)
    assume g: "mode (physics s) = ''gravity'' \<and> \<not> bounceEnabled (physics s) \<and> p_mass ?p \<noteq> 0"
    then have ph: "applyPhysics ?s1 ?p = applyForce (gravityX (physics s)) (gravityY (physics s)) ?p"
      by (simp add: applyPhysics_def applyGravity_def)
    from g assms(2) show "(length bands = 7 \<longrightarrow>
          p_vy (particlePool (update dt (Some bands) s) ! i) =
            (p_vy ?p + bands ! 1 * 0.5) * damping (physics s) + (p_ay ?p + gravityY (physics s) / p_mass ?p) * dt \<and>
          p_vx (particlePool (update dt (Some bands) s) ! i) =
            (p_vx ?p + (bands ! 5 - 0.5) * 0.3) * damping (physics s) + (p_ax ?p + gravityX (physics s) / p_mass ?p) * dt) \<and>
       (length bands \<noteq> 7 \<longrightarrow>
          p_vy (particlePool (update dt (Some bands) s) ! i) =
            p_vy ?p * damping (physics s) + (p_ay ?p + gravityY (physics s) / p_mass ?p) * dt \<and>
          p_vx (particlePool (update dt (Some bands) s) ! i) =
            p_vx ?p * damping (physics s) + (p_ax ?p + gravityX (physics s) / p_mass ?p) * dt)"
      unfolding slot ph
      by (simp add: applyAudio_def applyForce_def applyDamping_def Particle_update_def
          handleBoundaries_def wrap_def Let_def)
  qed
  from A B C D show ?thesis by (intro conjI)
qed

theorem audio_vector_guard_witness:
  "p_size (particlePool (update 1 (Some [0, 1, 0, 1, 0, 1, 0]) one_at_rest) ! 0) = 2.4 \<and>
   p_vy (particlePool (update 1 (Some [0, 1, 0, 1, 0, 1, 0]) one_at_rest) ! 0) = 0.995 \<and>
   p_size (particlePool (update 1 (Some [0, 1, 0, 1, 0, 1]) one_at_rest) ! 0) = 2 \<and>
   p_vy (particlePool (update 1 (Some [0, 1, 0, 1, 0, 1]) one_at_rest) ! 0) = 0.5"
proof -
  have h: "0 < length (particlePool one_at_rest)" "p_active (particlePool one_at_rest ! 0)"
    by (simp_all add: one_at_rest_def init_def)
  have g: "mode (physics one_at_rest) = ''gravity'' \<and> \<not> bounceEnabled (physics one_at_rest) \<and>
      p_mass (particlePool one_at_rest ! 0) \<noteq> 0"
    by (simp add: one_at_rest_def new_ParticleSystem_def init_def)
  have l7: "length [0, 1, 0, 1, 0, 1, 0 :: real] = 7" and l6: "length [0, 1, 0, 1, 0, 1 :: real] \<noteq> 7"
    by simp_all
  note t7 = audio_vector_guard [OF h, of "[0, 1, 0, 1, 0, 1, 0]" 1]
  note t6 = audio_vector_guard [OF h, of "[0, 1, 0, 1, 0, 1]" 1]
  note s7 = t7 [THEN conjunct1, THEN mp, OF l7, THEN conjunct2]
  note s6 = t6 [THEN conjunct2, THEN conjunct1, THEN mp, OF l6, THEN conjunct2, THEN conjunct1]
  note v7 = t7 [THEN conjunct2, THEN conjunct2, THEN conjunct2, THEN conjunct2, THEN mp, OF g,
      THEN conjunct1, THEN mp, OF l7, THEN conjunct1]
  note v6 = t6 [THEN conjunct2, THEN conjunct2, THEN conjunct2, THEN conjunct2, THEN mp, OF g,
      THEN conjunct2, THEN mp, OF l6, THEN conjunct1]
  from s7 v7 s6 v6 show ?thesis
    by (simp add: one_at_rest_def new_ParticleSystem_def init_def new_Particle_def)
qed

section \<open>Level-of-detail sampling\<close>

lemma loop_bound: "(real i < m) = (i < nat \<lceil>m\<rceil>)"
proof -
  have "(i < nat \<lceil>m\<rceil>) = (int i < \<lceil>m\<rceil>)" by linarith
  also have "\<dots> = (real_of_int (int i) < m)" by (rule less_ceiling_iff)
  finally show ?thesis by simp
qed

lemma LOD_loop_eq:
  "LOD_loop a m st i acc = acc @ map (\<lambda>j. js_index a \<lfloor>fl64 (real j * st)\<rfloor>) [i..<nat \<lceil>m\<rceil>]"
proof (induction a m st i acc rule: LOD_loop.induct)
  case (1 a m st i acc)
  show ?case
  proof (cases "real i < m")
    case True
    then have "i < nat \<lceil>m\<rceil>" by (simp add: loop_bound)
    then have "[i..<nat \<lceil>m\<rceil>] = i # [Suc i..<nat \<lceil>m\<rceil>]" by (rule upt_conv_Cons)
    with True "1.IH" show ?thesis
      by (subst LOD_loop.simps) simp
  next
    case False
    then have "\<not> i < nat \<lceil>m\<rceil>" by (simp add: loop_bound)
    with False show ?thesis
      by (subst LOD_loop.simps) simp
  qed
qed

lemma LOD_result:
  assumes "maxCount < real (length (getActiveParticles s))"
  shows "getActiveParticlesLOD maxCount s =
           map (\<lambda>i. js_index (getActiveParticles s)
                  \<lfloor>fl64 (real i * fl64 (real (length (getActiveParticles s)) / maxCount))\<rfloor>)
             [0..<nat \<lceil>maxCount\<rceil>]"
  using assms by (simp add: getActiveParticlesLOD_def Let_def LOD_loop_eq)

lemma sample_index_mono:
  assumes "0 \<le> st" "i \<le> j"
  shows "\<lfloor>fl64 (real i * st)\<rfloor> \<le> \<lfloor>fl64 (real j * st)\<rfloor>"
proof -
  have "real i * st \<le> real j * st" using assms by (intro mult_right_mono) simp_all
  moreover have "0 \<le> real i * st" using assms(1) by simp
  ultimately have "fl64 (real i * st) \<le> fl64 (real j * st)" by (intro fl64_mono)
  then show ?thesis by (rule floor_mono)
qed

lemma sample_index_bound:
  assumes "m < real n" "i < nat \<lceil>m\<rceil>" "(real_of_int \<lceil>m\<rceil> - 1) * (1 + 1 / 2 ^ 53)\<^sup>2 < m"
  shows "0 \<le> \<lfloor>fl64 (real i * fl64 (real n / m))\<rfloor>" "nat \<lfloor>fl64 (real i * fl64 (real n / m))\<rfloor> < n"
proof -
  define u :: real where "u = 1 / 2 ^ 53"
  define q where "q = real n / m"
  define st where "st = fl64 q"
  define x where "x = real i * st"
  have u: "0 \<le> u" by (simp add: u_def)
  have im: "real i < m" using assms(2) by (simp add: loop_bound)
  have mpos: "0 < m" using im by (meson le_less_trans of_nat_0_le_iff)
  have npos: "0 < real n" using assms(1) mpos by linarith
  have qpos: "0 \<le> q" using mpos npos by (simp add: q_def)
  have st0: "0 \<le> st" unfolding st_def using qpos by (rule fl64_sign(1))
  have "st \<le> q + \<bar>q\<bar> / 2 ^ 53" unfolding st_def by (rule fl64_bounds(2))
  then have st1: "st \<le> q * (1 + u)" using qpos by (simp add: u_def algebra_simps)
  have x0: "0 \<le> x" unfolding x_def using st0 by simp
  show nonneg: "0 \<le> \<lfloor>fl64 (real i * fl64 (real n / m))\<rfloor>"
    unfolding q_def [symmetric] st_def [symmetric] x_def [symmetric]
    using fl64_sign(1) [OF x0] by simp
  have "fl64 x \<le> x + \<bar>x\<bar> / 2 ^ 53" by (rule fl64_bounds(2))
  then have fx: "fl64 x \<le> x * (1 + u)" using x0 by (simp add: u_def algebra_simps)
  have iI: "real i \<le> real_of_int \<lceil>m\<rceil> - 1" using assms(2) by linarith
  have I0: "0 \<le> real_of_int \<lceil>m\<rceil> - 1" using iI by (meson of_nat_0_le_iff order_trans)
  have "x \<le> (real_of_int \<lceil>m\<rceil> - 1) * (q * (1 + u))"
    unfolding x_def using iI st1 st0 I0 by (intro mult_mono) simp_all
  then have "x * (1 + u) \<le> (real_of_int \<lceil>m\<rceil> - 1) * (q * (1 + u)) * (1 + u)"
    using u by (intro mult_right_mono) simp_all
  also have "\<dots> = ((real_of_int \<lceil>m\<rceil> - 1) * (1 + u)\<^sup>2) * q"
    by (simp add: power2_eq_square algebra_simps)
  also have "\<dots> < m * q"
    using assms(3) assms(1) mpos npos unfolding u_def q_def
    by (intro mult_strict_right_mono) simp_all
  also have "m * q = real n" using mpos by (simp add: q_def)
  finally have "x * (1 + u) < real n" .
  with fx have "fl64 x < real_of_int (int n)" by simp
  then have "\<lfloor>fl64 x\<rfloor> < int n" by (simp only: floor_less_iff)
  with nonneg show "nat \<lfloor>fl64 (real i * fl64 (real n / m))\<rfloor> < n"
    unfolding q_def [symmetric] st_def [symmetric] x_def [symmetric] by linarith
qed

lemma natural_count_margin:
  assumes "m \<le> 2 ^ 50"
  shows "(real_of_int \<lceil>real m\<rceil> - 1) * (1 + 1 / 2 ^ 53)\<^sup>2 < real m"
proof -
  have b: "real m \<le> 2 ^ 50" using assms by (metis of_nat_le_iff of_nat_numeral of_nat_power)
  have "(real m - 1) * (1 + 1 / 2 ^ 53)\<^sup>2 < real m"
    using b by (simp add: power2_eq_square algebra_simps)
  then show ?thesis by simp
qed

text \<open>
  The rounding is visible in the index: with 30 active particles and \<^verbatim>\<open>maxParticles = 22\<close>
  the quotient \<open>30 / 22\<close> is rounded down, \<open>11 * step\<close> is the double just below \<open>15\<close>, and
  the eleventh sample is \<^verbatim>\<open>active[14]\<close>, where exact arithmetic would give index \<open>15\<close>.
\<close>

lemma step_30_22: "fl64 (real 30 / 22) = 6141272219141585 / 2 ^ 52"
proof -
  have "fl64 (real 30 / 22) = of_int (round_even ((real 30 / 22) / 2 powr of_int (0 - 52))) * 2 powr of_int (0 - 52)"
    by (rule fl64_binade) simp_all
  also have "(real 30 / 22) / 2 powr of_int (0 - 52) = 67553994410557440 / 11"
    by (simp add: powr_minus powr_numeral divide_simps)
  also have "round_even (67553994410557440 / 11) = 6141272219141585"
    by (simp add: round_even_def Let_def)
  finally show ?thesis by (simp add: powr_minus powr_numeral divide_simps)
qed

lemma sample_index_30_22_11:
  "\<lfloor>fl64 (real 11 * fl64 (real 30 / 22))\<rfloor> = 14" "\<lfloor>real 11 * (real 30 / 22)\<rfloor> = 15"
proof -
  have v: "real 11 * fl64 (real 30 / 22) = 67553994410557435 / 2 ^ 52"
    unfolding step_30_22 by simp
  have "fl64 (67553994410557435 / 2 ^ 52) =
      of_int (round_even ((67553994410557435 / 2 ^ 52) / 2 powr of_int (3 - 52))) * 2 powr of_int (3 - 52)"
    by (rule fl64_binade) (simp_all add: powr_numeral)
  also have "(67553994410557435 / 2 ^ 52) / 2 powr of_int (3 - 52) = (67553994410557435 / 8 :: real)"
    by (simp add: powr_minus powr_numeral divide_simps)
  also have "round_even (67553994410557435 / 8) = 8444249301319679"
    by (simp add: round_even_def Let_def)
  finally have r: "fl64 (67553994410557435 / 2 ^ 52) = 8444249301319679 / 562949953421312"
    by (simp add: powr_minus powr_numeral)
  have "\<lfloor>8444249301319679 / 562949953421312 :: real\<rfloor> = 14" by (simp add: floor_eq_iff)
  then show "\<lfloor>fl64 (real 11 * fl64 (real 30 / 22))\<rfloor> = 14" unfolding v r by simp
  show "\<lfloor>real 11 * (real 30 / 22)\<rfloor> = 15" by simp
qed

text \<open>
  Claim C5, as the code has it, for any number \<open>maxCount\<close>. If at most \<open>maxCount\<close>
  particles are active the sampler returns all of them, unchanged and in order. Otherwise
  it returns \<open>\<lceil>maxCount\<rceil>\<close> elements (none for \<open>maxCount \<le> 0\<close>), one for each integer
  \<open>i\<close> in \<open>[0, maxCount)\<close>: the read \<^verbatim>\<open>active[floor(i * step)]\<close> with
  \<open>step = activeCount / maxCount\<close>, quotient and product rounded to double. These indices
  do not decrease with \<open>i\<close>. Where \<open>(\<lceil>maxCount\<rceil> - 1) (1 + 2\<^sup>-\<^sup>5\<^sup>3)\<^sup>2 < maxCount\<close>
  every index lies inside the list of active particles, so every element is a particle.
  That is the case for every natural \<open>maxCount\<close> up to \<open>2\<^sup>5\<^sup>0\<close>, for which the sampler
  returns exactly \<open>maxCount\<close> particles.
\<close>

theorem LOD_sampling:
  "(real (length (getActiveParticles s)) \<le> maxCount \<longrightarrow>
      getActiveParticlesLOD maxCount s = map Some (getActiveParticles s)) \<and>
   (maxCount < real (length (getActiveParticles s)) \<longrightarrow>
      length (getActiveParticlesLOD maxCount s) = nat \<lceil>maxCount\<rceil> \<and>
      (\<forall>i < nat \<lceil>maxCount\<rceil>.
         getActiveParticlesLOD maxCount s ! i =
           js_index (getActiveParticles s)
             \<lfloor>fl64 (real i * fl64 (real (length (getActiveParticles s)) / maxCount))\<rfloor>) \<and>
      (\<forall>i j. i \<le> j \<and> j < nat \<lceil>maxCount\<rceil> \<longrightarrow>
         \<lfloor>fl64 (real i * fl64 (real (length (getActiveParticles s)) / maxCount))\<rfloor>
           \<le> \<lfloor>fl64 (real j * fl64 (real (length (getActiveParticles s)) / maxCount))\<rfloor>) \<and>
      ((real_of_int \<lceil>maxCount\<rceil> - 1) * (1 + 1 / 2 ^ 53)\<^sup>2 < maxCount \<longrightarrow>
         (\<forall>i < nat \<lceil>maxCount\<rceil>.
            nat \<lfloor>fl64 (real i * fl64 (real (length (getActiveParticles s)) / maxCount))\<rfloor>
              < length (getActiveParticles s) \<and>
            getActiveParticlesLOD maxCount s ! i =
              Some (getActiveParticles s !
                nat \<lfloor>fl64 (real i * fl64 (real (length (getActiveParticles s)) / maxCount))\<rfloor>)))) \<and>
   (m \<le> 2 ^ 50 \<and> m < length (getActiveParticles s) \<longrightarrow>
      length (getActiveParticlesLOD (real m) s) = m \<and>
      (\<forall>i < m.
         nat \<lfloor>fl64 (real i * fl64 (real (length (getActiveParticles s)) / real m))\<rfloor>
           < length (getActiveParticles s) \<and>
         getActiveParticlesLOD (real m) s ! i =
           Some (getActiveParticles s !
             nat \<lfloor>fl64 (real i * fl64 (real (length (getActiveParticles s)) / real m))\<rfloor>)))"
proof -
  let ?a = "getActiveParticles s"
  let ?n = "length ?a"
  have all: "real ?n \<le> maxCount \<longrightarrow> getActiveParticlesLOD maxCount s = map Some ?a"
    by (simp add: getActiveParticlesLOD_def)
  have general: "\<And>c. c < real ?n \<Longrightarrow>
      length (getActiveParticlesLOD c s) = nat \<lceil>c\<rceil> \<and>
      (\<forall>i < nat \<lceil>c\<rceil>. getActiveParticlesLOD c s ! i = js_index ?a \<lfloor>fl64 (real i * fl64 (real ?n / c))\<rfloor>) \<and>
      (\<forall>i j. i \<le> j \<and> j < nat \<lceil>c\<rceil> \<longrightarrow>
         \<lfloor>fl64 (real i * fl64 (real ?n / c))\<rfloor> \<le> \<lfloor>fl64 (real j * fl64 (real ?n / c))\<rfloor>) \<and>
      ((real_of_int \<lceil>c\<rceil> - 1) * (1 + 1 / 2 ^ 53)\<^sup>2 < c \<longrightarrow>
         (\<forall>i < nat \<lceil>c\<rceil>.
            nat \<lfloor>fl64 (real i * fl64 (real ?n / c))\<rfloor> < ?n \<and>
            getActiveParticlesLOD c s ! i = Some (?a ! nat \<lfloor>fl64 (real i * fl64 (real ?n / c))\<rfloor>)))"
  proof -
    fix c :: real assume lt: "c < real ?n"
    note res = LOD_result [OF lt]
    have len: "length (getActiveParticlesLOD c s) = nat \<lceil>c\<rceil>" by (simp add: res)
    have at: "\<forall>i < nat \<lceil>c\<rceil>. getActiveParticlesLOD c s ! i = js_index ?a \<lfloor>fl64 (real i * fl64 (real ?n / c))\<rfloor>"
      by (simp add: res)
    have mono: "\<forall>i j. i \<le> j \<and> j < nat \<lceil>c\<rceil> \<longrightarrow>
         \<lfloor>fl64 (real i * fl64 (real ?n / c))\<rfloor> \<le> \<lfloor>fl64 (real j * fl64 (real ?n / c))\<rfloor>"
    proof (intro allI impI)
      fix i j assume h: "i \<le> j \<and> j < nat \<lceil>c\<rceil>"
      then have "real j < c" by (simp add: loop_bound)
      then have "0 < c" by (meson le_less_trans of_nat_0_le_iff)
      then have "0 \<le> real ?n / c" by simp
      then have "0 \<le> fl64 (real ?n / c)" by (rule fl64_sign(1))
      with h show "\<lfloor>fl64 (real i * fl64 (real ?n / c))\<rfloor> \<le> \<lfloor>fl64 (real j * fl64 (real ?n / c))\<rfloor>"
        by (intro sample_index_mono) simp_all
    qed
    have inside: "(real_of_int \<lceil>c\<rceil> - 1) * (1 + 1 / 2 ^ 53)\<^sup>2 < c \<longrightarrow>
         (\<forall>i < nat \<lceil>c\<rceil>.
            nat \<lfloor>fl64 (real i * fl64 (real ?n / c))\<rfloor> < ?n \<and>
            getActiveParticlesLOD c s ! i = Some (?a ! nat \<lfloor>fl64 (real i * fl64 (real ?n / c))\<rfloor>))"
    proof (intro impI allI)
      fix i assume mg: "(real_of_int \<lceil>c\<rceil> - 1) * (1 + 1 / 2 ^ 53)\<^sup>2 < c" and i: "i < nat \<lceil>c\<rceil>"
      note b = sample_index_bound [OF lt i mg]
      from b at i show "nat \<lfloor>fl64 (real i * fl64 (real ?n / c))\<rfloor> < ?n \<and>
            getActiveParticlesLOD c s ! i = Some (?a ! nat \<lfloor>fl64 (real i * fl64 (real ?n / c))\<rfloor>)"
        by (simp add: js_index_def)
    qed
    from len at mono inside show "length (getActiveParticlesLOD c s) = nat \<lceil>c\<rceil> \<and>
      (\<forall>i < nat \<lceil>c\<rceil>. getActiveParticlesLOD c s ! i = js_index ?a \<lfloor>fl64 (real i * fl64 (real ?n / c))\<rfloor>) \<and>
      (\<forall>i j. i \<le> j \<and> j < nat \<lceil>c\<rceil> \<longrightarrow>
         \<lfloor>fl64 (real i * fl64 (real ?n / c))\<rfloor> \<le> \<lfloor>fl64 (real j * fl64 (real ?n / c))\<rfloor>) \<and>
      ((real_of_int \<lceil>c\<rceil> - 1) * (1 + 1 / 2 ^ 53)\<^sup>2 < c \<longrightarrow>
         (\<forall>i < nat \<lceil>c\<rceil>.
            nat \<lfloor>fl64 (real i * fl64 (real ?n / c))\<rfloor> < ?n \<and>
            getActiveParticlesLOD c s ! i = Some (?a ! nat \<lfloor>fl64 (real i * fl64 (real ?n / c))\<rfloor>)))"
      by (intro conjI)
  qed
  have natural: "m \<le> 2 ^ 50 \<and> m < ?n \<longrightarrow>
      length (getActiveParticlesLOD (real m) s) = m \<and>
      (\<forall>i < m.
         nat \<lfloor>fl64 (real i * fl64 (real ?n / real m))\<rfloor> < ?n \<and>
         getActiveParticlesLOD (real m) s ! i = Some (?a ! nat \<lfloor>fl64 (real i * fl64 (real ?n / real m))\<rfloor>))"
  proof
    assume h: "m \<le> 2 ^ 50 \<and> m < ?n"
    then have lt: "real m < real ?n" by simp
    from h have mg: "(real_of_int \<lceil>real m\<rceil> - 1) * (1 + 1 / 2 ^ 53)\<^sup>2 < real m"
      by (intro natural_count_margin) simp
    have c: "nat \<lceil>real m\<rceil> = m" by simp
    from general [OF lt] have len: "length (getActiveParticlesLOD (real m) s) = nat \<lceil>real m\<rceil>"
      and ins: "(real_of_int \<lceil>real m\<rceil> - 1) * (1 + 1 / 2 ^ 53)\<^sup>2 < real m \<longrightarrow>
         (\<forall>i < nat \<lceil>real m\<rceil>.
            nat \<lfloor>fl64 (real i * fl64 (real ?n / real m))\<rfloor> < ?n \<and>
            getActiveParticlesLOD (real m) s ! i = Some (?a ! nat \<lfloor>fl64 (real i * fl64 (real ?n / real m))\<rfloor>))"
      by blast+
    from len ins mg show "length (getActiveParticlesLOD (real m) s) = m \<and>
      (\<forall>i < m.
         nat \<lfloor>fl64 (real i * fl64 (real ?n / real m))\<rfloor> < ?n \<and>
         getActiveParticlesLOD (real m) s ! i = Some (?a ! nat \<lfloor>fl64 (real i * fl64 (real ?n / real m))\<rfloor>))"
      unfolding c by blast
  qed
  from all general [of maxCount] natural show ?thesis by blast
qed

lemma three_active_list:
  "getActiveParticles three_active =
      [new_Particle\<lparr> p_active := True, p_hue := 10 \<rparr>, new_Particle\<lparr> p_active := True, p_hue := 20 \<rparr>,
       new_Particle\<lparr> p_active := True, p_hue := 30 \<rparr>]"
  by (simp add: getActiveParticles_def three_active_def new_ParticleSystem_def)

theorem LOD_sampling_witness:
  "getActiveParticlesLOD 5 three_active = map Some (getActiveParticles three_active) \<and>
   length (getActiveParticlesLOD 2 three_active) = 2 \<and>
   getActiveParticlesLOD 2 three_active ! 0 = Some (new_Particle\<lparr> p_active := True, p_hue := 10 \<rparr>)"
proof -
  have le: "real (length (getActiveParticles three_active)) \<le> 5"
    and lt: "2 < real (length (getActiveParticles three_active))"
    by (simp_all add: three_active_list)
  have mg: "(real_of_int \<lceil>2::real\<rceil> - 1) * (1 + 1 / 2 ^ 53)\<^sup>2 < 2" by (simp add: power2_eq_square)
  have i: "(0::nat) < nat \<lceil>2::real\<rceil>" by simp
  note all = LOD_sampling [of three_active 5 0, THEN conjunct1, THEN mp, OF le]
  note some = LOD_sampling [of three_active 2 0, THEN conjunct2, THEN conjunct1, THEN mp, OF lt]
  note len = some [THEN conjunct1]
  note at = some [THEN conjunct2, THEN conjunct2, THEN conjunct2, THEN mp, OF mg, THEN spec, THEN mp, OF i,
      THEN conjunct2]
  from at have "getActiveParticlesLOD 2 three_active ! 0 = Some (new_Particle\<lparr> p_active := True, p_hue := 10 \<rparr>)"
    by (simp add: three_active_list fl64_def)
  with all len show ?thesis by simp
qed

text \<open>
  The claim as stated (exactly \<open>maxCount\<close> particles for every \<open>maxCount\<close>) fails for a
  \<open>maxCount\<close> that is not an integer, such as the values the MIDI mapping writes into the
  renderer's \<^verbatim>\<open>maxParticles\<close>: with three active particles and \<open>maxCount = 2.5\<close> the loop
  runs for \<open>i = 0, 1, 2\<close> and returns three elements.
\<close>

theorem LOD_sampling_counterexample:
  "length (getActiveParticlesLOD 2.5 three_active) = 3 \<and>
   real (length (getActiveParticlesLOD 2.5 three_active)) \<noteq> 2.5"
proof -
  have lt: "2.5 < real (length (getActiveParticles three_active))" by (simp add: three_active_list)
  have c: "nat \<lceil>2.5 :: real\<rceil> = 3" by (simp add: ceiling_eq_iff)
  have "length (getActiveParticlesLOD 2.5 three_active) = 3"
    unfolding LOD_result [OF lt] by (simp add: c)
  then show ?thesis by simp
qed

section \<open>Hue of a spawned particle\<close>

lemma js_rem_360_range:
  "(0 \<le> a \<longrightarrow> 0 \<le> js_rem a 360 \<and> js_rem a 360 < 360) \<and>
   (a < 0 \<longrightarrow> - 360 < js_rem a 360 \<and> js_rem a 360 \<le> 0)"
proof (intro conjI impI)
  assume "0 \<le> a"
  then have "js_rem a 360 = a - 360 * real_of_int \<lfloor>a / 360\<rfloor>" by (simp add: js_rem_def)
  moreover have "real_of_int \<lfloor>a / 360\<rfloor> \<le> a / 360" "a / 360 < real_of_int \<lfloor>a / 360\<rfloor> + 1"
    by linarith+
  ultimately show "0 \<le> js_rem a 360" "js_rem a 360 < 360" by linarith+
next
  assume "a < 0"
  then have "js_rem a 360 = a - 360 * real_of_int \<lceil>a / 360\<rceil>" by (simp add: js_rem_def)
  moreover have "a / 360 \<le> real_of_int \<lceil>a / 360\<rceil>" "real_of_int \<lceil>a / 360\<rceil> < a / 360 + 1"
    by linarith+
  ultimately show "- 360 < js_rem a 360" "js_rem a 360 \<le> 0" by linarith+
qed

text \<open>
  Claim C9, evaluated on the code. The hue is the remainder \<^verbatim>\<open>%\<close> of the sum by \<open>360\<close>,
  which keeps the sign of the sum. With the default base hue \<open>200\<close> and variation \<open>60\<close>,
  a hue shift of \<open>-180\<close> and a random draw of \<open>0\<close> the sum is \<open>-10\<close> and the particle is
  spawned with hue \<open>-10\<close>, outside \<open>0\<close>--\<open>360\<close>.
\<close>

theorem spawn_hue_negative:
  "p_hue (particlePool (emit 1 0 (\<lambda>_. 0)
      ((new_ParticleSystem 1)\<lparr> audioReactive := (audioReactive (new_ParticleSystem 1))\<lparr> hueShift := - 180 \<rparr> \<rparr>)) ! 0)
     = - 10"
  by (simp add: emit_def new_ParticleSystem_def getParticle_def new_Particle_def spawn_def init_def
      js_rem_def Let_def ceiling_eq_iff)

section \<open>Boundary policies\<close>

text \<open>
  Claim C6. On a canvas of non-negative width, one boundary pass under the wrap policy
  (bounce disabled, wrap enabled) moves a particle at \<open>x = width + 5\<close> to \<open>x = 0\<close>.
  \<^verbatim>\<open>bounce\<close> puts a coordinate below \<open>0\<close> at \<open>0\<close> and one beyond the far edge at that
  edge, and multiplies the matching velocity component by \<open>- damping\<close>; under the bounce
  policy the boundary pass is \<^verbatim>\<open>bounce\<close> with damping \<open>0.8\<close>.
\<close>

theorem boundary_policies:
  assumes "0 \<le> width s"
  shows "(\<not> bounceEnabled (physics s) \<and> wrapEnabled (physics s) \<and> p_x p = width s + 5 \<longrightarrow>
            p_x (handleBoundaries s p) = 0) \<and>
         (p_x p = width s + 5 \<longrightarrow> p_x (wrap (width s) (height s) p) = 0) \<and>
         (p_x p < 0 \<longrightarrow> p_x (bounce w h d p) = 0 \<and> p_vx (bounce w h d p) = - (d * p_vx p)) \<and>
         (0 \<le> p_x p \<and> w < p_x p \<longrightarrow> p_x (bounce w h d p) = w \<and> p_vx (bounce w h d p) = - (d * p_vx p)) \<and>
         (p_y p < 0 \<longrightarrow> p_y (bounce w h d p) = 0 \<and> p_vy (bounce w h d p) = - (d * p_vy p)) \<and>
         (0 \<le> p_y p \<and> h < p_y p \<longrightarrow> p_y (bounce w h d p) = h \<and> p_vy (bounce w h d p) = - (d * p_vy p)) \<and>
         (bounceEnabled (physics s) \<longrightarrow> handleBoundaries s p = bounce (width s) (height s) 0.8 p)"
  using assms by (simp add: handleBoundaries_def wrap_def bounce_def Let_def)

theorem boundary_policies_witness:
  "p_x (handleBoundaries (new_ParticleSystem 1) (new_Particle\<lparr> p_x := 1925 \<rparr>)) = 0 \<and>
   p_x (bounce 1920 1080 0.8 (new_Particle\<lparr> p_x := 1925, p_vx := 2 \<rparr>)) = 1920 \<and>
   p_vx (bounce 1920 1080 0.8 (new_Particle\<lparr> p_x := 1925, p_vx := 2 \<rparr>)) = - 1.6 \<and>
   p_y (bounce 1920 1080 0.8 (new_Particle\<lparr> p_y := - 3, p_vy := - 1 \<rparr>)) = 0 \<and>
   p_vy (bounce 1920 1080 0.8 (new_Particle\<lparr> p_y := - 3, p_vy := - 1 \<rparr>)) = 0.8"
proof -
  have w: "0 \<le> width (new_ParticleSystem 1)" by (simp add: new_ParticleSystem_def)
  show ?thesis
    using boundary_policies [OF w, of "new_Particle\<lparr> p_x := 1925 \<rparr>" 0 0 0]
      boundary_policies [OF w, of "new_Particle\<lparr> p_x := 1925, p_vx := 2 \<rparr>" 1920 1080 "0.8"]
      boundary_policies [OF w, of "new_Particle\<lparr> p_y := - 3, p_vy := - 1 \<rparr>" 1920 1080 "0.8"]
    by (simp add: new_ParticleSystem_def new_Particle_def)
qed

section \<open>Mode setter\<close>

text \<open>
  Claim C10. \<^verbatim>\<open>setPhysicsMode\<close> called with one of the four mode names stores it in
  \<^verbatim>\<open>physics.mode\<close> and changes nothing else; called with any other string it returns
  the engine state as it was.
\<close>

theorem setPhysicsMode_validation:
  "(m \<in> {''gravity'', ''magnetism'', ''turbulence'', ''orbital''} \<longrightarrow>
      setPhysicsMode m s = s\<lparr> physics := (physics s)\<lparr> mode := m \<rparr> \<rparr>) \<and>
   (m \<notin> {''gravity'', ''magnetism'', ''turbulence'', ''orbital''} \<longrightarrow>
      setPhysicsMode m s = s)"
  by (simp add: setPhysicsMode_def validModes_def)

theorem setPhysicsMode_validation_witness:
  "mode (physics (setPhysicsMode ''orbital'' (new_ParticleSystem 3))) = ''orbital'' \<and>
   particlePool (setPhysicsMode ''orbital'' (new_ParticleSystem 3)) = particlePool (new_ParticleSystem 3) \<and>
   setPhysicsMode ''bounce'' (new_ParticleSystem 3) = new_ParticleSystem 3"
  using setPhysicsMode_validation [of "''orbital''" "new_ParticleSystem 3"]
        setPhysicsMode_validation [of "''bounce''" "new_ParticleSystem 3"]
  by simp

end
